theory Spec2Isabelle
  imports Main "HOL-Library.Word"
begin

section \<open>Values of the hosting framework\<close>

text \<open>
  \<open>types.String\<close> of the plugin framework: a string attribute is null, unknown or
  known. \<open>ValueString\<close> gives the empty string for a null or unknown value.
\<close>

datatype tfstring = Null | Unknown | Known string

fun IsNull :: "tfstring \<Rightarrow> bool" where
  "IsNull Null = True"
| "IsNull Unknown = False"
| "IsNull (Known s) = False"

fun IsUnknown :: "tfstring \<Rightarrow> bool" where
  "IsUnknown Null = False"
| "IsUnknown Unknown = True"
| "IsUnknown (Known s) = False"

fun ValueString :: "tfstring \<Rightarrow> string" where
  "ValueString Null = []"
| "ValueString Unknown = []"
| "ValueString (Known s) = s"

text \<open>
  Diagnostics are an ordered collection of errors and warnings, each with a summary and
  a detail. \<open>Append\<close> skips a diagnostic that the collection already contains, as the
  framework does; \<open>AddError\<close> appends one error diagnostic.
\<close>

datatype diagnostic =
    ErrorDiagnostic (summary: string) (detail: string)
  | WarningDiagnostic (summary: string) (detail: string)

fun isError :: "diagnostic \<Rightarrow> bool" where
  "isError (ErrorDiagnostic s d) = True"
| "isError (WarningDiagnostic s d) = False"

definition HasError :: "diagnostic list \<Rightarrow> bool" where
  "HasError ds = list_ex isError ds"

definition Append :: "diagnostic list \<Rightarrow> diagnostic list \<Rightarrow> diagnostic list" where
  "Append ds new = foldl (\<lambda>acc d. if d \<in> set acc then acc else acc @ [d]) ds new"

definition AddError :: "diagnostic list \<Rightarrow> string \<Rightarrow> string \<Rightarrow> diagnostic list" where
  "AddError ds s d = Append ds [ErrorDiagnostic s d]"

section \<open>Go values: errors, panics, slices and strings\<close>

text \<open>
  An \<open>error\<close> value is the iterator's \<open>Done\<close> sentinel, an \<open>*apierror.APIError\<close>
  with its HTTP code, or any other error. \<open>Error\<close> is the message that
  \<open>%+v\<close> prints.
\<close>

datatype error =
    Done
  | APIError (HTTPCode: int) (apiMessage: string)
  | OtherError string

fun Error :: "error \<Rightarrow> string" where
  "Error Done = ''no more items in iterator''"
| "Error (APIError c m) = m"
| "Error (OtherError m) = m"

text \<open>The run-time panics the resolution can raise.\<close>

datatype panic =
    IndexOutOfRange int int
  | NilPointerDereference

text \<open>Indexing a slice with an \<open>int\<close>: out of range is a panic.\<close>

definition index :: "'a list \<Rightarrow> int \<Rightarrow> panic + 'a" where
  "index xs i =
     (if 0 \<le> i \<and> i < int (length xs) then Inr (xs ! nat i)
      else Inl (IndexOutOfRange i (int (length xs))))"

text \<open>
  \<open>strings.Split(s, sep)\<close> for a separator of one byte, which is how the resolution
  calls it (with \<open>"/"\<close>): the pieces between the separators, one piece more than there
  are separators, so never an empty slice.
\<close>

fun Split :: "string \<Rightarrow> char \<Rightarrow> string list" where
  "Split [] sep = [[]]"
| "Split (c # cs) sep =
     (if c = sep then [] # Split cs sep
      else (case Split cs sep of
              [] \<Rightarrow> [[c]]
            | piece # pieces \<Rightarrow> (c # piece) # pieces))"

text \<open>\<open>strconv.FormatUint(n, 10)\<close> on a 64-bit unsigned value.\<close>

definition digit :: "nat \<Rightarrow> char" where
  "digit d = ''0123456789'' ! d"

fun formatBits :: "nat \<Rightarrow> string" where
  "formatBits n = (if n < 10 then [digit n] else formatBits (n div 10) @ [digit (n mod 10)])"

declare formatBits.simps [simp del]

definition FormatUint10 :: "64 word \<Rightarrow> string" where
  "FormatUint10 n = formatBits (unat n)"

section \<open>Resources of the compute API\<close>

text \<open>
  The fields the resolution reads. Optional fields are pointers in the Go structures;
  the \<open>Get...\<close> accessors give the zero value for a nil pointer.
\<close>

record ForwardingRule =
  fr_Description :: "string option"
  fr_Name :: "string option"
  fr_Target :: "string option"

definition GetDescription :: "ForwardingRule \<Rightarrow> string" where
  "GetDescription fr = (case fr_Description fr of None \<Rightarrow> [] | Some s \<Rightarrow> s)"

definition GetName :: "ForwardingRule \<Rightarrow> string" where
  "GetName fr = (case fr_Name fr of None \<Rightarrow> [] | Some s \<Rightarrow> s)"

definition GetTarget :: "ForwardingRule \<Rightarrow> string" where
  "GetTarget fr = (case fr_Target fr of None \<Rightarrow> [] | Some s \<Rightarrow> s)"

record TargetHttpsProxy =
  thp_UrlMap :: "string option"

definition GetUrlMap :: "TargetHttpsProxy \<Rightarrow> string" where
  "GetUrlMap p = (case thp_UrlMap p of None \<Rightarrow> [] | Some s \<Rightarrow> s)"

datatype HttpFaultInjection = HttpFaultInjection

record WeightedBackendService =
  wbs_BackendService :: "string option"

record HttpRouteAction =
  FaultInjectionPolicy :: "HttpFaultInjection option"
  WeightedBackendServices :: "WeightedBackendService list"

record HttpRouteRule =
  RouteAction :: "HttpRouteAction option"

record PathMatcher =
  pm_DefaultRouteAction :: "HttpRouteAction option"
  pm_DefaultService :: "string option"
  RouteRules :: "HttpRouteRule list"

record UrlMap =
  um_DefaultRouteAction :: "HttpRouteAction option"
  um_DefaultService :: "string option"
  PathMatchers :: "PathMatcher list"

record BackendService =
  bs_Id :: "64 word option"
  bs_Name :: "string option"

definition GetId :: "BackendService \<Rightarrow> 64 word" where
  "GetId b = (case bs_Id b of None \<Rightarrow> 0 | Some n \<Rightarrow> n)"

definition bs_GetName :: "BackendService \<Rightarrow> string" where
  "bs_GetName b = (case bs_Name b of None \<Rightarrow> [] | Some s \<Rightarrow> s)"

section \<open>The provider data and the data source model\<close>

text \<open>
  Each client handle is modelled by the one operation the resolution calls on it. A
  \<open>Get\<close> takes the project, the region for a regional client, and the resource name;
  it gives the resource or an error. A \<open>List\<close> gives the iterator, modelled by the
  results of its successive \<open>Next\<close> calls; when they are used up, \<open>Next\<close> gives
  \<open>Done\<close>.
\<close>

type_synonym ForwardingRuleIterator = "(error + ForwardingRule) list"

record GKEGatewayProviderData =
  backendServicesClient :: "string \<Rightarrow> string \<Rightarrow> error + BackendService"
  forwardingRulesClient :: "string \<Rightarrow> string \<Rightarrow> ForwardingRuleIterator"
  globalForwardingRulesClient :: "string \<Rightarrow> ForwardingRuleIterator"
  project :: tfstring
  region :: tfstring
  regionBackendServicesClient :: "string \<Rightarrow> string \<Rightarrow> string \<Rightarrow> error + BackendService"
  regionTargetHttpsProxiesClient :: "string \<Rightarrow> string \<Rightarrow> string \<Rightarrow> error + TargetHttpsProxy"
  regionUrlMapsClient :: "string \<Rightarrow> string \<Rightarrow> string \<Rightarrow> error + UrlMap"
  targetHttpsProxiesClient :: "string \<Rightarrow> string \<Rightarrow> error + TargetHttpsProxy"
  urlMapsClient :: "string \<Rightarrow> string \<Rightarrow> error + UrlMap"

record BackendServiceDataSource =
  providerData :: "GKEGatewayProviderData option"

record BackendServiceDataSourceModelBackendService =
  ID :: tfstring
  Name :: tfstring

record BackendServiceDataSourceModel =
  BackendService :: "BackendServiceDataSourceModelBackendService option"
  Gateway :: tfstring
  Namespace :: tfstring
  Project :: tfstring
  Region :: tfstring

record forwardingRuleDescription =
  K8sResource :: "string option"

text \<open>
  The request is what \<open>req.Config.Get\<close> gives: the diagnostics of decoding the
  configuration and the decoded model. The response holds the diagnostics and the state,
  which stays as the caller passed it unless the resolution sets it.
\<close>

record ReadRequest =
  ConfigGet_diags :: "diagnostic list"
  ConfigGet_data :: BackendServiceDataSourceModel

record ReadResponse =
  Diagnostics :: "diagnostic list"
  State :: "BackendServiceDataSourceModel option"

text \<open>
  The client operations a resolution invokes, in order, with their arguments; the first
  of each pair is the global variant, the second the regional one.
\<close>

datatype client_call =
    GlobalForwardingRules_List string
  | ForwardingRules_List string string
  | TargetHttpsProxies_Get string string
  | RegionTargetHttpsProxies_Get string string string
  | UrlMaps_Get string string
  | RegionUrlMaps_Get string string string
  | BackendServices_Get string string
  | RegionBackendServices_Get string string string

fun regional :: "client_call \<Rightarrow> bool" where
  "regional (GlobalForwardingRules_List p) = False"
| "regional (ForwardingRules_List p r) = True"
| "regional (TargetHttpsProxies_Get p n) = False"
| "regional (RegionTargetHttpsProxies_Get p r n) = True"
| "regional (UrlMaps_Get p n) = False"
| "regional (RegionUrlMaps_Get p r n) = True"
| "regional (BackendServices_Get p n) = False"
| "regional (RegionBackendServices_Get p r n) = True"

text \<open>
  A run of \<open>Read\<close> gives the client calls it made and either a panic or the response.
\<close>

type_synonym outcome = "client_call list \<times> (panic + ReadResponse)"

definition returns :: "ReadResponse \<Rightarrow> outcome" where
  "returns resp = ([], Inr resp)"

definition panics :: "panic \<Rightarrow> outcome" where
  "panics p = ([], Inl p)"

definition invoke :: "client_call \<Rightarrow> outcome \<Rightarrow> outcome" where
  "invoke c rest = (c # fst rest, snd rest)"

definition addError :: "ReadResponse \<Rightarrow> string \<Rightarrow> string \<Rightarrow> ReadResponse" where
  "addError resp s d = resp\<lparr>Diagnostics := AddError (Diagnostics resp) s d\<rparr>"

section \<open>The resolution: \<open>BackendServiceDataSource.Read\<close>\<close>

subsection \<open>Matching a forwarding rule to the gateway\<close>

text \<open>
  \<open>fmt.Sprintf("/namespaces/%s/gateways/%s", namespace, gateway)\<close>.
\<close>

definition k8sResourcePath :: "string \<Rightarrow> string \<Rightarrow> string" where
  "k8sResourcePath namespace gateway = ''/namespaces/'' @ namespace @ ''/gateways/'' @ gateway"

text \<open>
  The test on one forwarding rule inside the loop. \<open>json.Unmarshal\<close> into a
  \<open>forwardingRuleDescription\<close> belongs to Go's library, so it is a parameter
  \<open>unmarshal\<close>: it gives the decoded record or an error.
\<close>

type_synonym unmarshal = "string \<Rightarrow> error + forwardingRuleDescription"

definition descriptionMatches :: "unmarshal \<Rightarrow> string \<Rightarrow> string \<Rightarrow> string \<Rightarrow> bool" where
  "descriptionMatches unmarshal namespace gateway description =
     (case unmarshal description of
        Inl err \<Rightarrow> False
      | Inr frd \<Rightarrow>
          (case K8sResource frd of
             None \<Rightarrow> False
           | Some v \<Rightarrow> v = k8sResourcePath namespace gateway))"

definition forwardingRuleMatches ::
  "unmarshal \<Rightarrow> BackendServiceDataSourceModel \<Rightarrow> ForwardingRule \<Rightarrow> bool" where
  "forwardingRuleMatches unmarshal data forwardingRule =
     descriptionMatches unmarshal (ValueString (Namespace data)) (ValueString (Gateway data))
       (GetDescription forwardingRule)"

subsection \<open>The loop over the forwarding rules\<close>

text \<open>
  The loop leaves by \<open>break\<close> at \<open>Done\<close>, with the matching rules collected so far, by
  a plain \<open>return\<close> at an \<open>APIError\<close> with HTTP code 404, or by a \<open>return\<close> after
  reporting any other error.
\<close>

datatype loop_exit =
    Break "ForwardingRule list"
  | ReturnNotFound
  | ReturnError error

fun is404 :: "error \<Rightarrow> bool" where
  "is404 (APIError c m) = (c = 404)"
| "is404 Done = False"
| "is404 (OtherError m) = False"

fun forwardingRulesLoop ::
  "unmarshal \<Rightarrow> BackendServiceDataSourceModel \<Rightarrow> ForwardingRuleIterator \<Rightarrow>
   ForwardingRule list \<Rightarrow> loop_exit" where
  "forwardingRulesLoop unmarshal data [] matchingForwardingRules =
     Break matchingForwardingRules"
| "forwardingRulesLoop unmarshal data (Inl err # it) matchingForwardingRules =
     (if err = Done then Break matchingForwardingRules
      else if is404 err then ReturnNotFound
      else ReturnError err)"
| "forwardingRulesLoop unmarshal data (Inr forwardingRule # it) matchingForwardingRules =
     forwardingRulesLoop unmarshal data it
       (if forwardingRuleMatches unmarshal data forwardingRule
        then matchingForwardingRules @ [forwardingRule]
        else matchingForwardingRules)"

text \<open>The message listing the matching rules, built by the loop over them.\<close>

definition newline :: string where
  "newline = [CHR 0x0A]"

definition forwardingRulesDebugMessage :: "ForwardingRule list \<Rightarrow> string" where
  "forwardingRulesDebugMessage rules =
     foldl (\<lambda>debugMessage rule. debugMessage @ ''  - '' @ GetName rule @ newline)
       (''The following forwarding rules matched:'' @ newline @ newline) rules"

subsection \<open>Extracting the backend services of a URL map\<close>

text \<open>
  The loop over the path matchers extends the route actions and the backend service
  paths; the loop over the route actions then extends the paths. Both lists hold
  pointers, so an entry can be nil (\<open>None\<close>).
\<close>

definition matcherStep ::
  "HttpRouteAction option list \<times> string option list \<Rightarrow> PathMatcher \<Rightarrow>
   HttpRouteAction option list \<times> string option list" where
  "matcherStep acc matcher =
     (let routeActions = fst acc @ [pm_DefaultRouteAction matcher];
          backendServicePaths =
            (if pm_DefaultService matcher \<noteq> None
             then snd acc @ [pm_DefaultService matcher] else snd acc)
      in (foldl (\<lambda>actions rule. actions @ [RouteAction rule]) routeActions (RouteRules matcher),
          backendServicePaths))"

definition actionStep :: "string option list \<Rightarrow> HttpRouteAction option \<Rightarrow> string option list" where
  "actionStep backendServicePaths action =
     (case action of
        None \<Rightarrow> backendServicePaths
      | Some a \<Rightarrow>
          if FaultInjectionPolicy a \<noteq> None then backendServicePaths
          else foldl (\<lambda>paths wbs. paths @ [wbs_BackendService wbs]) backendServicePaths
                 (WeightedBackendServices a))"

definition backendServicePaths :: "UrlMap \<Rightarrow> string option list" where
  "backendServicePaths urlMap =
     (let routeActions = [um_DefaultRouteAction urlMap];
          paths = (if um_DefaultService urlMap \<noteq> None then [um_DefaultService urlMap] else []);
          acc = foldl matcherStep (routeActions, paths) (PathMatchers urlMap)
      in foldl actionStep (snd acc) (fst acc))"

text \<open>
  The message listing the backend services: the last component of each path, which is
  dereferenced first.
\<close>

fun backendServicesDebugLoop :: "string \<Rightarrow> string option list \<Rightarrow> panic + string" where
  "backendServicesDebugLoop debugMessage [] = Inr debugMessage"
| "backendServicesDebugLoop debugMessage (None # paths) = Inl NilPointerDereference"
| "backendServicesDebugLoop debugMessage (Some path # paths) =
     (let components = Split path CHR ''/'' in
      case index components (int (length components) - 1) of
        Inl p \<Rightarrow> Inl p
      | Inr c \<Rightarrow> backendServicesDebugLoop (debugMessage @ ''  - '' @ c @ newline) paths)"

definition backendServicesDebugMessage :: "string option list \<Rightarrow> panic + string" where
  "backendServicesDebugMessage paths =
     backendServicesDebugLoop (''The following backend services matched:'' @ newline @ newline) paths"

subsection \<open>The client variant of each lookup\<close>

text \<open>
  Each lookup takes the global client when the region is null and the regional client
  otherwise. The first component is the call made, the second its result.
\<close>

definition listForwardingRules ::
  "GKEGatewayProviderData \<Rightarrow> string \<Rightarrow> tfstring \<Rightarrow> client_call \<times> ForwardingRuleIterator" where
  "listForwardingRules pd proj reg =
     (if IsNull reg
      then (GlobalForwardingRules_List proj, globalForwardingRulesClient pd proj)
      else (ForwardingRules_List proj (ValueString reg),
            forwardingRulesClient pd proj (ValueString reg)))"

definition getTargetHttpsProxy ::
  "GKEGatewayProviderData \<Rightarrow> string \<Rightarrow> tfstring \<Rightarrow> string \<Rightarrow>
   client_call \<times> (error + TargetHttpsProxy)" where
  "getTargetHttpsProxy pd proj reg name =
     (if IsNull reg
      then (TargetHttpsProxies_Get proj name, targetHttpsProxiesClient pd proj name)
      else (RegionTargetHttpsProxies_Get proj (ValueString reg) name,
            regionTargetHttpsProxiesClient pd proj (ValueString reg) name))"

definition getUrlMap ::
  "GKEGatewayProviderData \<Rightarrow> string \<Rightarrow> tfstring \<Rightarrow> string \<Rightarrow> client_call \<times> (error + UrlMap)" where
  "getUrlMap pd proj reg name =
     (if IsNull reg
      then (UrlMaps_Get proj name, urlMapsClient pd proj name)
      else (RegionUrlMaps_Get proj (ValueString reg) name,
            regionUrlMapsClient pd proj (ValueString reg) name))"

definition getBackendService ::
  "GKEGatewayProviderData \<Rightarrow> string \<Rightarrow> tfstring \<Rightarrow> string \<Rightarrow>
   client_call \<times> (error + BackendService)" where
  "getBackendService pd proj reg name =
     (if IsNull reg
      then (BackendServices_Get proj name, backendServicesClient pd proj name)
      else (RegionBackendServices_Get proj (ValueString reg) name,
            regionBackendServicesClient pd proj (ValueString reg) name))"

definition apiErrorDetail :: "error \<Rightarrow> string" where
  "apiErrorDetail err = ''Error calling Google API: '' @ Error err"

subsection \<open>The stages of \<open>Read\<close>, last first\<close>

text \<open>
  From the check of the number of backend service paths to the end: look the one
  backend service up and set the state. Setting the state is taken to succeed, so that
  it adds no diagnostic.
\<close>

definition Read_backendService ::
  "GKEGatewayProviderData \<Rightarrow> string \<Rightarrow> tfstring \<Rightarrow> BackendServiceDataSourceModel \<Rightarrow>
   ReadResponse \<Rightarrow> string option list \<Rightarrow> outcome" where
  "Read_backendService pd proj reg data resp paths =
     (if length paths = 0 then returns (addError resp ''No backend services found'' [])
      else if length paths > 1 then
        (case backendServicesDebugMessage paths of
           Inl p \<Rightarrow> panics p
         | Inr debugMessage \<Rightarrow>
             returns (addError resp ''Multiple backend services found'' debugMessage))
      else
        (case paths ! 0 of
           None \<Rightarrow> panics NilPointerDereference
         | Some path \<Rightarrow>
             (let backendServiceComponents = Split path CHR ''/'' in
              case index backendServiceComponents (int (length backendServiceComponents) - 1) of
                Inl p \<Rightarrow> panics p
              | Inr name \<Rightarrow>
                  invoke (fst (getBackendService pd proj reg name))
                    (case snd (getBackendService pd proj reg name) of
                       Inl err \<Rightarrow>
                         returns (addError resp (''Error looking up backend service '' @ name)
                                    (apiErrorDetail err))
                     | Inr backendService \<Rightarrow>
                         returns (resp\<lparr>State := Some (data\<lparr>BackendService := Some
                           \<lparr>ID = Known (FormatUint10 (GetId backendService)),
                            Name = Known (bs_GetName backendService)\<rparr>\<rparr>)\<rparr>)))))"

text \<open>From the lookup of the URL map to the extraction of the backend service paths.\<close>

definition Read_urlMap ::
  "GKEGatewayProviderData \<Rightarrow> string \<Rightarrow> tfstring \<Rightarrow> BackendServiceDataSourceModel \<Rightarrow>
   ReadResponse \<Rightarrow> string \<Rightarrow> outcome" where
  "Read_urlMap pd proj reg data resp urlMapResource =
     (let urlMapComponents = Split urlMapResource CHR ''/'' in
      case index urlMapComponents (int (length urlMapComponents) - 1) of
        Inl p \<Rightarrow> panics p
      | Inr name \<Rightarrow>
          invoke (fst (getUrlMap pd proj reg name))
            (case snd (getUrlMap pd proj reg name) of
               Inl err \<Rightarrow>
                 returns (addError resp (''Error looking up URL map '' @ name) (apiErrorDetail err))
             | Inr urlMap \<Rightarrow>
                 Read_backendService pd proj reg data resp (backendServicePaths urlMap)))"

text \<open>The lookup of the target of the one matching forwarding rule.\<close>

definition unsupportedDetail :: "string \<Rightarrow> string \<Rightarrow> string" where
  "unsupportedDetail name kind =
     ''The '' @ name @ '' forwarding rule has a target with a type of '' @ kind @
     '' which is currently unsupported by this provider.''"

definition Read_target ::
  "GKEGatewayProviderData \<Rightarrow> string \<Rightarrow> tfstring \<Rightarrow> BackendServiceDataSourceModel \<Rightarrow>
   ReadResponse \<Rightarrow> ForwardingRule \<Rightarrow> outcome" where
  "Read_target pd proj reg data resp rule =
     (let targetComponents = Split (GetTarget rule) CHR ''/'' in
      case index targetComponents (int (length targetComponents) - 2) of
        Inl p \<Rightarrow> panics p
      | Inr kind \<Rightarrow>
          if kind = ''targetHttpsProxies'' then
            (case index targetComponents (int (length targetComponents) - 1) of
               Inl p \<Rightarrow> panics p
             | Inr name \<Rightarrow>
                 invoke (fst (getTargetHttpsProxy pd proj reg name))
                   (case snd (getTargetHttpsProxy pd proj reg name) of
                      Inl err \<Rightarrow>
                        returns (addError resp (''Error looking up HTTPS target proxy '' @ name)
                                   (apiErrorDetail err))
                    | Inr proxy \<Rightarrow> Read_urlMap pd proj reg data resp (GetUrlMap proxy)))
          else
            returns (addError resp ''Unsupported target type for forwarding rule''
                       (unsupportedDetail (GetName rule) kind)))"

text \<open>The listing of the forwarding rules and the check of the number of matches.\<close>

definition Read_forwardingRules ::
  "unmarshal \<Rightarrow> GKEGatewayProviderData \<Rightarrow> string \<Rightarrow> tfstring \<Rightarrow>
   BackendServiceDataSourceModel \<Rightarrow> ReadResponse \<Rightarrow> outcome" where
  "Read_forwardingRules unmarshal pd proj reg data resp =
     invoke (fst (listForwardingRules pd proj reg))
       (case forwardingRulesLoop unmarshal data (snd (listForwardingRules pd proj reg)) [] of
          ReturnNotFound \<Rightarrow> returns resp
        | ReturnError err \<Rightarrow>
            returns (addError resp ''Unable to iterate over forwarding rules'' (apiErrorDetail err))
        | Break matchingForwardingRules \<Rightarrow>
            if length matchingForwardingRules = 0 then returns resp
            else if length matchingForwardingRules > 1 then
              returns (addError resp ''Multiple matching forwarding rules found''
                         (forwardingRulesDebugMessage matchingForwardingRules))
            else Read_target pd proj reg data resp (matchingForwardingRules ! 0))"

text \<open>The project and the region a resolution works with.\<close>

definition effectiveProject :: "GKEGatewayProviderData \<Rightarrow> BackendServiceDataSourceModel \<Rightarrow> string" where
  "effectiveProject pd data =
     (if \<not> IsNull (Project data) then ValueString (Project data) else ValueString (project pd))"

definition effectiveRegion :: "GKEGatewayProviderData \<Rightarrow> BackendServiceDataSourceModel \<Rightarrow> tfstring" where
  "effectiveRegion pd data = (if \<not> IsNull (Region data) then Region data else region pd)"

text \<open>
  The response after the diagnostics of decoding the configuration have been appended.
\<close>

definition appendConfigDiagnostics :: "ReadRequest \<Rightarrow> ReadResponse \<Rightarrow> ReadResponse" where
  "appendConfigDiagnostics req resp0 =
     resp0\<lparr>Diagnostics := Append (Diagnostics resp0) (ConfigGet_diags req)\<rparr>"

text \<open>
  \<open>Read\<close> from its start: the configuration is decoded, the project and the region
  are settled, and the stages above follow.
\<close>

definition Read ::
  "unmarshal \<Rightarrow> BackendServiceDataSource \<Rightarrow> ReadRequest \<Rightarrow> ReadResponse \<Rightarrow> outcome" where
  "Read unmarshal d req resp0 =
     (let resp = appendConfigDiagnostics req resp0;
          data = ConfigGet_data req
      in if HasError (Diagnostics resp) then returns resp
         else
           (case providerData d of
              None \<Rightarrow> panics NilPointerDereference
            | Some pd \<Rightarrow>
                if IsNull (project pd) \<and> IsNull (Project data) then
                  returns (addError resp ''Missing project''
                    ''The project field must be set on either the provider or data source.'')
                else if IsUnknown (Project data) then
                  returns (addError resp ''Unknown project''
                    ''The project field on the data source cannot be set to an unknown value'')
                else if IsUnknown (Region data) then
                  returns (addError resp ''Unknown region''
                    ''The region field on the data source cannot be set to an unknown value'')
                else
                  Read_forwardingRules unmarshal pd (effectiveProject pd data)
                    (effectiveRegion pd data) data resp))"

section \<open>Notions used to state the properties\<close>

text \<open>
  A call passes the checks at the start of \<open>Read\<close>: decoding the configuration gave no
  error, the data source has been configured with the provider data \<open>pd\<close>, a project is
  set on the provider or on the data source, and neither the project nor the region of
  the data source is unknown.
\<close>

definition passesChecks ::
  "BackendServiceDataSource \<Rightarrow> ReadRequest \<Rightarrow> ReadResponse \<Rightarrow> GKEGatewayProviderData \<Rightarrow> bool" where
  "passesChecks d req resp0 pd \<longleftrightarrow>
     \<not> HasError (Diagnostics (appendConfigDiagnostics req resp0)) \<and>
     providerData d = Some pd \<and>
     \<not> (IsNull (project pd) \<and> IsNull (Project (ConfigGet_data req))) \<and>
     \<not> IsUnknown (Project (ConfigGet_data req)) \<and>
     \<not> IsUnknown (Region (ConfigGet_data req))"

text \<open>The response with one more error diagnostic at the end of its diagnostics.\<close>

definition withError :: "ReadResponse \<Rightarrow> string \<Rightarrow> string \<Rightarrow> ReadResponse" where
  "withError resp s d = resp\<lparr>Diagnostics := Diagnostics resp @ [ErrorDiagnostic s d]\<rparr>"

text \<open>
  The candidate paths as the specification describes them: the default service of the
  URL map if present, then the default service of each path matcher if present, then the
  backend services of every collected route action that is present and has no fault
  injection policy. The route actions are collected from the URL map's default, and for
  each path matcher from its default and its route rules.
\<close>

definition presentPath :: "string option \<Rightarrow> string option list" where
  "presentPath p = (case p of None \<Rightarrow> [] | Some s \<Rightarrow> [Some s])"

definition matcherActions :: "PathMatcher \<Rightarrow> HttpRouteAction option list" where
  "matcherActions m = pm_DefaultRouteAction m # map RouteAction (RouteRules m)"

definition collectedActions :: "UrlMap \<Rightarrow> HttpRouteAction option list" where
  "collectedActions urlMap =
     um_DefaultRouteAction urlMap # concat (map matcherActions (PathMatchers urlMap))"

definition actionCandidates :: "HttpRouteAction option \<Rightarrow> string option list" where
  "actionCandidates action =
     (case action of
        None \<Rightarrow> []
      | Some a \<Rightarrow>
          if FaultInjectionPolicy a \<noteq> None then []
          else map wbs_BackendService (WeightedBackendServices a))"

definition spec_candidatePaths :: "UrlMap \<Rightarrow> string option list" where
  "spec_candidatePaths urlMap =
     presentPath (um_DefaultService urlMap) @
     concat (map (\<lambda>m. presentPath (pm_DefaultService m)) (PathMatchers urlMap)) @
     concat (map actionCandidates (collectedActions urlMap))"

text \<open>The lines of an ambiguity message: one per label, in the order of the labels.\<close>

definition labelLines :: "string list \<Rightarrow> string" where
  "labelLines labels = concat (map (\<lambda>l. ''  - '' @ l @ newline) labels)"

definition lastComponent :: "string \<Rightarrow> string" where
  "lastComponent path = last (Split path CHR ''/'')"

text \<open>The value of a string of decimal digits, to check \<open>FormatUint10\<close> against.\<close>

definition decimalValue :: "string \<Rightarrow> nat" where
  "decimalValue s = foldl (\<lambda>acc c. 10 * acc + (of_char c - 48)) 0 s"

section \<open>A concrete project to run the resolution on\<close>

definition gatewayDescription :: string where
  "gatewayDescription = ''{\"k8sResource\":\"/namespaces/my-cool-app/gateways/my-gateway-name\"}''"

text \<open>
  A decoder that knows a few descriptions: the one of the gateway, ones whose value is
  a prefix, a suffix or a case variant of the gateway's, and an object without the field.
  Everything else fails to decode.
\<close>

definition exampleUnmarshal :: unmarshal where
  "exampleUnmarshal s =
     (if s = gatewayDescription
      then Inr \<lparr>K8sResource = Some ''/namespaces/my-cool-app/gateways/my-gateway-name''\<rparr>
      else if s = ''{\"k8sResource\":\"/namespaces/my-cool-app/gateways/my-gateway\"}''
      then Inr \<lparr>K8sResource = Some ''/namespaces/my-cool-app/gateways/my-gateway''\<rparr>
      else if s = ''{\"k8sResource\":\"my-cool-app/gateways/my-gateway-name\"}''
      then Inr \<lparr>K8sResource = Some ''my-cool-app/gateways/my-gateway-name''\<rparr>
      else if s = ''{\"k8sResource\":\"/namespaces/My-Cool-App/gateways/my-gateway-name\"}''
      then Inr \<lparr>K8sResource = Some ''/namespaces/My-Cool-App/gateways/my-gateway-name''\<rparr>
      else if s = ''{}'' then Inr \<lparr>K8sResource = None\<rparr>
      else Inl (OtherError ''invalid character''))"

definition exampleRule :: "string \<Rightarrow> string \<Rightarrow> string \<Rightarrow> ForwardingRule" where
  "exampleRule name description target =
     \<lparr>fr_Description = Some description, fr_Name = Some name, fr_Target = Some target\<rparr>"

definition proxy1 :: TargetHttpsProxy where
  "proxy1 = \<lparr>thp_UrlMap = Some ''https://compute/projects/my-gcp-project/global/urlMaps/map-1''\<rparr>"

definition exampleProxies :: "string \<Rightarrow> error + TargetHttpsProxy" where
  "exampleProxies name =
     (if name = ''proxy-1'' then Inr proxy1 else Inl (APIError 404 ''proxy not found''))"

definition exampleBackendServices :: "string \<Rightarrow> error + BackendService" where
  "exampleBackendServices name = Inr \<lparr>bs_Id = Some 4242, bs_Name = Some name\<rparr>"

definition exampleProviderData ::
  "tfstring \<Rightarrow> ForwardingRuleIterator \<Rightarrow> UrlMap \<Rightarrow> GKEGatewayProviderData" where
  "exampleProviderData reg rules urlMap =
     \<lparr>backendServicesClient = (\<lambda>proj. exampleBackendServices),
      forwardingRulesClient = (\<lambda>proj r. rules),
      globalForwardingRulesClient = (\<lambda>proj. rules),
      project = Null,
      region = reg,
      regionBackendServicesClient = (\<lambda>proj r. exampleBackendServices),
      regionTargetHttpsProxiesClient = (\<lambda>proj r. exampleProxies),
      regionUrlMapsClient = (\<lambda>proj r name. Inr urlMap),
      targetHttpsProxiesClient = (\<lambda>proj. exampleProxies),
      urlMapsClient = (\<lambda>proj name. Inr urlMap)\<rparr>"

definition exampleDataSource ::
  "tfstring \<Rightarrow> ForwardingRuleIterator \<Rightarrow> UrlMap \<Rightarrow> BackendServiceDataSource" where
  "exampleDataSource reg rules urlMap = \<lparr>providerData = Some (exampleProviderData reg rules urlMap)\<rparr>"

definition exampleData :: BackendServiceDataSourceModel where
  "exampleData =
     \<lparr>BackendService = None, Gateway = Known ''my-gateway-name'',
      Namespace = Known ''my-cool-app'', Project = Known ''my-gcp-project'', Region = Null\<rparr>"

definition exampleRequest :: ReadRequest where
  "exampleRequest = \<lparr>ConfigGet_diags = [], ConfigGet_data = exampleData\<rparr>"

definition requestFor :: "tfstring \<Rightarrow> tfstring \<Rightarrow> ReadRequest" where
  "requestFor proj reg =
     \<lparr>ConfigGet_diags = [], ConfigGet_data = exampleData\<lparr>Project := proj, Region := reg\<rparr>\<rparr>"

definition emptyResponse :: ReadResponse where
  "emptyResponse = \<lparr>Diagnostics = [], State = None\<rparr>"

definition serviceUrlMap :: "string list \<Rightarrow> UrlMap" where
  "serviceUrlMap paths =
     \<lparr>um_DefaultRouteAction = None,
      um_DefaultService = (case paths of [] \<Rightarrow> None | p # ps \<Rightarrow> Some p),
      PathMatchers = map (\<lambda>p. \<lparr>pm_DefaultRouteAction = None, pm_DefaultService = Some p,
                                RouteRules = []\<rparr>) (tl paths)\<rparr>"

definition httpsTarget :: string where
  "httpsTarget = ''https://compute/projects/my-gcp-project/global/targetHttpsProxies/proxy-1''"

definition gatewayRule :: "string \<Rightarrow> ForwardingRule" where
  "gatewayRule name = exampleRule name gatewayDescription httpsTarget"

definition otherRule :: ForwardingRule where
  "otherRule = exampleRule ''fr-other'' ''created by hand'' httpsTarget"

definition tcpRule :: ForwardingRule where
  "tcpRule = exampleRule ''fr-tcp'' gatewayDescription
     ''https://compute/projects/my-gcp-project/global/targetTcpProxies/p1''"

definition bareRule :: ForwardingRule where
  "bareRule = exampleRule ''fr-bare'' gatewayDescription ''proxy-1''"

definition svc1 :: string where
  "svc1 = ''https://compute/projects/my-gcp-project/global/backendServices/svc-1''"

definition svc2 :: string where
  "svc2 = ''https://compute/projects/my-gcp-project/global/backendServices/svc-2''"

text \<open>
  A URL map with a default service, a default route action that injects faults, and one
  path matcher without defaults whose two route rules have no action and an action with
  two weighted backend services.
\<close>

definition routedUrlMap :: UrlMap where
  "routedUrlMap =
     \<lparr>um_DefaultRouteAction =
        Some \<lparr>FaultInjectionPolicy = Some HttpFaultInjection,
              WeightedBackendServices = [\<lparr>wbs_BackendService = Some svc2\<rparr>]\<rparr>,
      um_DefaultService = Some svc1,
      PathMatchers =
        [\<lparr>pm_DefaultRouteAction = None, pm_DefaultService = None,
          RouteRules =
            [\<lparr>RouteAction = None\<rparr>,
             \<lparr>RouteAction = Some \<lparr>FaultInjectionPolicy = None,
                WeightedBackendServices =
                  [\<lparr>wbs_BackendService = Some svc2\<rparr>,
                   \<lparr>wbs_BackendService = Some svc1\<rparr>]\<rparr>\<rparr>]\<rparr>]\<rparr>"

text \<open>
  A URL map with a default service and a default route action whose one weighted backend
  service has no backend service path set.
\<close>

definition unsetServiceUrlMap :: UrlMap where
  "unsetServiceUrlMap =
     \<lparr>um_DefaultRouteAction =
        Some \<lparr>FaultInjectionPolicy = None,
              WeightedBackendServices = [\<lparr>wbs_BackendService = None\<rparr>]\<rparr>,
      um_DefaultService = Some svc1,
      PathMatchers = []\<rparr>"

section \<open>Auxiliary facts\<close>

lemma foldl_snoc_map: "foldl (\<lambda>acc x. acc @ [f x]) acc xs = acc @ map f xs"
  by (induction xs arbitrary: acc) simp_all

lemma matcherStep_eq:
  "matcherStep acc m = (fst acc @ matcherActions m, snd acc @ presentPath (pm_DefaultService m))"
  by (cases "pm_DefaultService m")
     (simp_all add: matcherStep_def matcherActions_def presentPath_def foldl_snoc_map)

lemma foldl_matcherStep:
  "foldl matcherStep acc ms =
     (fst acc @ concat (map matcherActions ms),
      snd acc @ concat (map (\<lambda>m. presentPath (pm_DefaultService m)) ms))"
  by (induction ms arbitrary: acc) (simp_all add: matcherStep_eq)

lemma actionStep_eq: "actionStep paths action = paths @ actionCandidates action"
  by (cases action) (simp_all add: actionStep_def actionCandidates_def foldl_snoc_map)

lemma foldl_actionStep:
  "foldl actionStep paths actions = paths @ concat (map actionCandidates actions)"
  by (induction actions arbitrary: paths) (simp_all add: actionStep_eq)

lemma Split_nonempty: "Split s sep \<noteq> []"
  by (induction s) (simp_all split: list.splits)

lemma Split_no_sep: "sep \<notin> set s \<Longrightarrow> Split s sep = [s]"
  by (induction s) auto

lemma Split_append_sep: "Split (p @ sep # s) sep = Split p sep @ Split s sep"
proof (induction p)
  case Nil
  show ?case by simp
next
  case (Cons c p)
  show ?case
  proof (cases "Split p sep")
    case Nil
    then show ?thesis using Split_nonempty by blast
  next
    case (Cons piece pieces)
    with Cons.IH show ?thesis by simp
  qed
qed

lemma length_Split: "length (Split s sep) = Suc (count_list s sep)"
  by (induction s) (auto split: list.splits simp: Split_nonempty)

lemma length_Split_sep: "sep \<in> set s \<Longrightarrow> 2 \<le> length (Split s sep)"
  by (cases "count_list s sep") (simp_all add: length_Split count_list_0_iff)

lemma index_last: "xs \<noteq> [] \<Longrightarrow> index xs (int (length xs) - 1) = Inr (last xs)"
  by (cases xs rule: rev_cases) (simp_all add: index_def nth_append)

lemma index_Split_last:
  "index (Split s sep) (int (length (Split s sep)) - 1) = Inr (last (Split s sep))"
  by (rule index_last) (rule Split_nonempty)

lemma index_second_last:
  "2 \<le> length xs \<Longrightarrow> index xs (int (length xs) - 2) = Inr (xs ! (length xs - 2))"
  by (simp add: index_def nat_diff_distrib')

lemma index_single: "index [x] (int (length [x]) - 2) = Inl (IndexOutOfRange (- 1) 1)"
  by (simp add: index_def)

lemma AddError_append:
  "\<not> HasError ds \<Longrightarrow> AddError ds s d = ds @ [ErrorDiagnostic s d]"
proof -
  assume "\<not> HasError ds"
  then have "ErrorDiagnostic s d \<notin> set ds"
    by (auto simp: HasError_def list_ex_iff)
  then show ?thesis
    by (simp add: AddError_def Append_def)
qed

lemma addError_withError:
  "\<not> HasError (Diagnostics resp) \<Longrightarrow> addError resp s d = withError resp s d"
  by (simp add: addError_def withError_def AddError_append)

lemma forwardingRulesLoop_rules:
  "forwardingRulesLoop unmarshal data (map Inr rules) acc =
     Break (acc @ filter (forwardingRuleMatches unmarshal data) rules)"
  by (induction rules arbitrary: acc) simp_all

lemma forwardingRulesLoop_error:
  "err \<noteq> Done \<Longrightarrow>
   forwardingRulesLoop unmarshal data (map Inr rules @ Inl err # rest) acc =
     (if is404 err then ReturnNotFound else ReturnError err)"
  by (induction rules arbitrary: acc) simp_all

lemma is404_iff: "is404 err \<longleftrightarrow> (\<exists>m. err = APIError 404 m)"
  by (cases err) simp_all

lemma foldl_label:
  "foldl (\<lambda>msg x. msg @ ''  - '' @ f x @ newline) msg xs = msg @ labelLines (map f xs)"
  by (induction xs arbitrary: msg) (simp_all add: labelLines_def)

lemma forwardingRulesDebugMessage_eq:
  "forwardingRulesDebugMessage rules =
     ''The following forwarding rules matched:'' @ newline @ newline @
     labelLines (map GetName rules)"
  unfolding forwardingRulesDebugMessage_def by (simp only: foldl_label append_assoc)

lemma backendServicesDebugLoop_eq:
  "backendServicesDebugLoop msg (map Some paths) = Inr (msg @ labelLines (map lastComponent paths))"
  by (induction paths arbitrary: msg)
     (simp_all add: labelLines_def index_Split_last lastComponent_def Let_def)

lemma backendServicesDebugMessage_eq:
  "backendServicesDebugMessage (map Some paths) =
     Inr (''The following backend services matched:'' @ newline @ newline @
          labelLines (map lastComponent paths))"
  unfolding backendServicesDebugMessage_def by (simp only: backendServicesDebugLoop_eq append_assoc)

lemma Read_passesChecks:
  assumes "passesChecks d req resp0 pd"
  shows "Read unmarshal d req resp0 =
           Read_forwardingRules unmarshal pd (effectiveProject pd (ConfigGet_data req))
             (effectiveRegion pd (ConfigGet_data req)) (ConfigGet_data req)
             (appendConfigDiagnostics req resp0)"
  using assms by (auto simp: Read_def passesChecks_def Let_def)

lemma Read_forwardingRules_one:
  assumes "snd (listForwardingRules pd proj reg) = map Inr rules"
    and "filter (forwardingRuleMatches unmarshal data) rules = [rule]"
  shows "Read_forwardingRules unmarshal pd proj reg data resp =
           invoke (fst (listForwardingRules pd proj reg)) (Read_target pd proj reg data resp rule)"
  using assms by (simp add: Read_forwardingRules_def forwardingRulesLoop_rules)

lemma index_two_last:
  "index (pre @ [a, b]) (int (length (pre @ [a, b])) - 2) = Inr a"
  "index (pre @ [a, b]) (int (length (pre @ [a, b])) - 1) = Inr b"
proof -
  show "index (pre @ [a, b]) (int (length (pre @ [a, b])) - 2) = Inr a"
    using index_second_last [of "pre @ [a, b]"] by (simp add: nth_append)
  show "index (pre @ [a, b]) (int (length (pre @ [a, b])) - 1) = Inr b"
    using index_last [of "pre @ [a, b]"] by simp
qed

lemma Read_target_https:
  assumes "Split (GetTarget rule) CHR ''/'' = pre @ [''targetHttpsProxies'', name]"
    and "snd (getTargetHttpsProxy pd proj reg name) = Inr proxy"
  shows "Read_target pd proj reg data resp rule =
           invoke (fst (getTargetHttpsProxy pd proj reg name))
             (Read_urlMap pd proj reg data resp (GetUrlMap proxy))"
  unfolding Read_target_def Let_def assms(1) index_two_last by (simp add: assms(2))

lemma Read_urlMap_found:
  assumes "snd (getUrlMap pd proj reg (lastComponent urlMapResource)) = Inr urlMap"
  shows "Read_urlMap pd proj reg data resp urlMapResource =
           invoke (fst (getUrlMap pd proj reg (lastComponent urlMapResource)))
             (Read_backendService pd proj reg data resp (backendServicePaths urlMap))"
  using assms by (simp add: Read_urlMap_def Let_def index_Split_last lastComponent_def)

lemma Read_backendService_one:
  assumes "snd (getBackendService pd proj reg (lastComponent path)) = Inr backendService"
  shows "Read_backendService pd proj reg data resp [Some path] =
           ([fst (getBackendService pd proj reg (lastComponent path))],
            Inr (resp\<lparr>State := Some (data\<lparr>BackendService := Some
              \<lparr>ID = Known (FormatUint10 (GetId backendService)),
               Name = Known (bs_GetName backendService)\<rparr>\<rparr>)\<rparr>))"
  using assms
  by (simp add: Read_backendService_def Let_def index_Split_last lastComponent_def
        invoke_def returns_def)

lemma Read_backendService_none:
  "\<not> HasError (Diagnostics resp) \<Longrightarrow>
   Read_backendService pd proj reg data resp [] =
     ([], Inr (withError resp ''No backend services found'' []))"
  by (simp add: Read_backendService_def returns_def addError_withError)

lemma Read_backendService_many:
  assumes "\<not> HasError (Diagnostics resp)" and "2 \<le> length paths"
  shows "Read_backendService pd proj reg data resp (map Some paths) =
     ([], Inr (withError resp ''Multiple backend services found''
        (''The following backend services matched:'' @ newline @ newline @
         labelLines (map lastComponent paths))))"
proof -
  from assms(2) have "length (map Some paths) \<noteq> 0" and "length (map Some paths) > 1"
    by auto
  then show ?thesis
    unfolding Read_backendService_def backendServicesDebugMessage_eq
    by (simp add: returns_def addError_withError [OF assms(1)])
qed

lemma Read_to_extraction:
  assumes checks: "passesChecks d req resp0 pd"
    and data: "data = ConfigGet_data req"
    and proj: "proj = effectiveProject pd data"
    and reg: "reg = effectiveRegion pd data"
    and listing: "snd (listForwardingRules pd proj reg) = map Inr rules"
    and matching: "filter (forwardingRuleMatches unmarshal data) rules = [rule]"
    and target: "Split (GetTarget rule) CHR ''/'' = pre @ [''targetHttpsProxies'', name]"
    and proxy: "snd (getTargetHttpsProxy pd proj reg name) = Inr proxy"
    and urlMap: "snd (getUrlMap pd proj reg (lastComponent (GetUrlMap proxy))) = Inr urlMap"
  shows "Read unmarshal d req resp0 =
           invoke (fst (listForwardingRules pd proj reg))
             (invoke (fst (getTargetHttpsProxy pd proj reg name))
                (invoke (fst (getUrlMap pd proj reg (lastComponent (GetUrlMap proxy))))
                   (Read_backendService pd proj reg data (appendConfigDiagnostics req resp0)
                      (backendServicePaths urlMap))))"
proof -
  have "Read unmarshal d req resp0 =
          Read_forwardingRules unmarshal pd proj reg data (appendConfigDiagnostics req resp0)"
    using checks by (simp add: Read_passesChecks data proj reg)
  also have "\<dots> = invoke (fst (listForwardingRules pd proj reg))
      (Read_target pd proj reg data (appendConfigDiagnostics req resp0) rule)"
    using listing matching by (rule Read_forwardingRules_one)
  also have "Read_target pd proj reg data (appendConfigDiagnostics req resp0) rule =
      invoke (fst (getTargetHttpsProxy pd proj reg name))
        (Read_urlMap pd proj reg data (appendConfigDiagnostics req resp0) (GetUrlMap proxy))"
    using target proxy by (rule Read_target_https)
  also have "Read_urlMap pd proj reg data (appendConfigDiagnostics req resp0) (GetUrlMap proxy) =
      invoke (fst (getUrlMap pd proj reg (lastComponent (GetUrlMap proxy))))
        (Read_backendService pd proj reg data (appendConfigDiagnostics req resp0)
           (backendServicePaths urlMap))"
    using urlMap by (rule Read_urlMap_found)
  finally show ?thesis .
qed

lemma Read_to_matches:
  assumes checks: "passesChecks d req resp0 pd"
    and data: "data = ConfigGet_data req"
    and proj: "proj = effectiveProject pd data"
    and reg: "reg = effectiveRegion pd data"
    and listing: "snd (listForwardingRules pd proj reg) = map Inr rules"
  shows "Read unmarshal d req resp0 =
           invoke (fst (listForwardingRules pd proj reg))
             (let matching = filter (forwardingRuleMatches unmarshal data) rules;
                  resp = appendConfigDiagnostics req resp0
              in if length matching = 0 then returns resp
                 else if length matching > 1 then
                   returns (addError resp ''Multiple matching forwarding rules found''
                              (forwardingRulesDebugMessage matching))
                 else Read_target pd proj reg data resp (matching ! 0))"
  using checks listing
  by (simp add: Read_passesChecks data proj reg Read_forwardingRules_def
        forwardingRulesLoop_rules Let_def)

lemma passesChecks_no_error:
  "passesChecks d req resp0 pd \<Longrightarrow> \<not> HasError (Diagnostics (appendConfigDiagnostics req resp0))"
  by (simp add: passesChecks_def)

lemma last_Split_append:
  "sep \<notin> set s \<Longrightarrow> last (Split (p @ sep # s) sep) = s"
  by (simp add: Split_append_sep Split_no_sep Split_nonempty)

lemma Split_https_target:
  "Split (p @ ''/targetHttpsProxies/proxy-1'') CHR ''/'' =
     Split p CHR ''/'' @ [''targetHttpsProxies'', ''proxy-1'']"
proof -
  have "p @ ''/targetHttpsProxies/proxy-1'' =
          p @ CHR ''/'' # (''targetHttpsProxies'' @ CHR ''/'' # ''proxy-1'')"
    by simp
  then show ?thesis
    by (simp only: Split_append_sep) (simp add: Split_no_sep)
qed

lemma lastComponent_svc1: "lastComponent (q @ ''backendServices/svc-1'') = ''svc-1''"
proof -
  have "last (Split ((q @ ''backendServices'') @ CHR ''/'' # ''svc-1'') CHR ''/'') = ''svc-1''"
    by (rule last_Split_append) simp
  then show ?thesis
    unfolding lastComponent_def by simp
qed

lemma calls_invoke: "fst (invoke c rest) = c # fst rest"
  by (simp add: invoke_def)

lemma calls_returns: "fst (returns resp) = []"
  by (simp add: returns_def)

lemma calls_panics: "fst (panics p) = []"
  by (simp add: panics_def)

lemma variant_client:
  "regional (fst (listForwardingRules pd proj reg)) = (\<not> IsNull reg)"
  "regional (fst (getTargetHttpsProxy pd proj reg name)) = (\<not> IsNull reg)"
  "regional (fst (getUrlMap pd proj reg name)) = (\<not> IsNull reg)"
  "regional (fst (getBackendService pd proj reg name)) = (\<not> IsNull reg)"
  by (simp_all add: listForwardingRules_def getTargetHttpsProxy_def getUrlMap_def
        getBackendService_def)

lemma variant_Read_backendService:
  "c \<in> set (fst (Read_backendService pd proj reg data resp paths)) \<Longrightarrow>
   regional c = (\<not> IsNull reg)"
  by (auto simp: Read_backendService_def Let_def calls_invoke calls_returns calls_panics
        variant_client split: if_splits sum.splits option.splits)

lemma variant_Read_urlMap:
  "c \<in> set (fst (Read_urlMap pd proj reg data resp urlMapResource)) \<Longrightarrow>
   regional c = (\<not> IsNull reg)"
  by (auto simp: Read_urlMap_def Let_def calls_invoke calls_returns calls_panics
        variant_client split: if_splits sum.splits dest: variant_Read_backendService)

lemma variant_Read_target:
  "c \<in> set (fst (Read_target pd proj reg data resp rule)) \<Longrightarrow>
   regional c = (\<not> IsNull reg)"
  by (auto simp: Read_target_def Let_def calls_invoke calls_returns calls_panics
        variant_client split: if_splits sum.splits dest: variant_Read_urlMap)

lemma variant_Read_forwardingRules:
  "c \<in> set (fst (Read_forwardingRules unmarshal pd proj reg data resp)) \<Longrightarrow>
   regional c = (\<not> IsNull reg)"
  by (auto simp: Read_forwardingRules_def calls_invoke calls_returns
        variant_client split: if_splits loop_exit.splits dest: variant_Read_target)

lemma backendServicesDebugLoop_nil:
  "None \<in> set paths \<Longrightarrow> backendServicesDebugLoop msg paths = Inl NilPointerDereference"
  by (induction msg paths rule: backendServicesDebugLoop.induct)
     (simp_all add: Let_def index_Split_last)

lemma Read_backendService_nil:
  assumes "None \<in> set paths" and "2 \<le> length paths"
  shows "Read_backendService pd proj reg data resp paths = ([], Inl NilPointerDereference)"
proof -
  from assms(2) have "length paths \<noteq> 0" and "length paths > 1"
    by auto
  then show ?thesis
    by (simp add: Read_backendService_def backendServicesDebugMessage_def
          backendServicesDebugLoop_nil [OF assms(1)] panics_def)
qed

lemma no_index_panic_debugLoop:
  "backendServicesDebugLoop msg paths \<noteq> Inl (IndexOutOfRange i n)"
  by (induction msg paths rule: backendServicesDebugLoop.induct)
     (simp_all add: Let_def index_Split_last)

lemma no_index_panic_backendService:
  "snd (Read_backendService pd proj reg data resp paths) \<noteq> Inl (IndexOutOfRange i n)"
  by (auto simp: Read_backendService_def Let_def index_Split_last invoke_def returns_def
        panics_def backendServicesDebugMessage_def no_index_panic_debugLoop
        split: sum.splits option.splits)

lemma no_index_panic_urlMap:
  "snd (Read_urlMap pd proj reg data resp urlMapResource) \<noteq> Inl (IndexOutOfRange i n)"
  by (auto simp: Read_urlMap_def Let_def index_Split_last invoke_def returns_def
        no_index_panic_backendService split: sum.splits)

lemma no_index_panic_target:
  assumes "CHR ''/'' \<in> set (GetTarget rule)"
  shows "snd (Read_target pd proj reg data resp rule) \<noteq> Inl (IndexOutOfRange i n)"
proof -
  have "index (Split (GetTarget rule) CHR ''/'')
          (int (length (Split (GetTarget rule) CHR ''/'')) - 2) =
        Inr (Split (GetTarget rule) CHR ''/'' ! (length (Split (GetTarget rule) CHR ''/'') - 2))"
    by (rule index_second_last) (rule length_Split_sep [OF assms])
  then show ?thesis
    by (auto simp: Read_target_def Let_def index_Split_last invoke_def returns_def
          no_index_panic_urlMap split: sum.splits)
qed

lemma decimalValue_digit: "d < 10 \<Longrightarrow> of_char (digit d) - 48 = d"
proof -
  assume "d < 10"
  then have "d \<in> {0, 1, 2, 3, 4, 5, 6, 7, 8, 9}" by auto
  then show ?thesis by (auto simp: digit_def)
qed

lemma decimalValue_formatBits: "decimalValue (formatBits n) = n"
proof (induction n rule: formatBits.induct)
  case (1 n)
  show ?case
  proof (cases "n < 10")
    case True
    then show ?thesis
      by (subst formatBits.simps) (simp add: decimalValue_def decimalValue_digit)
  next
    case False
    with 1 have "decimalValue (formatBits (n div 10)) = n div 10" by simp
    with False show ?thesis
      by (subst formatBits.simps) (simp add: decimalValue_def decimalValue_digit)
  qed
qed

lemma FormatUint10_decimal: "decimalValue (FormatUint10 n) = unat n"
  by (simp add: FormatUint10_def decimalValue_formatBits)

section \<open>Facts about the concrete project\<close>

lemmas example_defs =
  exampleUnmarshal_def exampleRule_def exampleProxies_def exampleBackendServices_def
  exampleProviderData_def exampleDataSource_def exampleData_def exampleRequest_def
  emptyResponse_def serviceUrlMap_def gatewayDescription_def gatewayRule_def httpsTarget_def
  otherRule_def tcpRule_def bareRule_def svc1_def svc2_def

lemma example_append: "appendConfigDiagnostics exampleRequest emptyResponse = emptyResponse"
  by (simp add: appendConfigDiagnostics_def Append_def exampleRequest_def emptyResponse_def)

lemma example_checks:
  "passesChecks (exampleDataSource reg rules urlMap) exampleRequest emptyResponse
     (exampleProviderData reg rules urlMap)"
  by (simp add: passesChecks_def example_append)
     (simp add: HasError_def example_defs)

lemma example_data: "exampleData = ConfigGet_data exampleRequest"
  by (simp add: exampleRequest_def)

lemma example_project:
  "''my-gcp-project'' = effectiveProject (exampleProviderData reg rules urlMap) exampleData"
  by (simp add: effectiveProject_def exampleData_def)

lemma example_region:
  "reg = effectiveRegion (exampleProviderData reg rules urlMap) exampleData"
  by (simp add: effectiveRegion_def exampleData_def exampleProviderData_def)

lemma example_listing:
  "snd (listForwardingRules (exampleProviderData reg rules urlMap) proj reg) = rules"
  by (simp add: listForwardingRules_def exampleProviderData_def)

lemma example_proxy:
  "snd (getTargetHttpsProxy (exampleProviderData reg rules urlMap) proj reg name) =
     exampleProxies name"
  by (simp add: getTargetHttpsProxy_def exampleProviderData_def)

lemma example_urlMap:
  "snd (getUrlMap (exampleProviderData reg rules urlMap) proj reg name) = Inr urlMap"
  by (simp add: getUrlMap_def exampleProviderData_def)

lemma example_backendService:
  "snd (getBackendService (exampleProviderData reg rules urlMap) proj reg name) =
     exampleBackendServices name"
  by (simp add: getBackendService_def exampleProviderData_def)

lemma example_service:
  "snd (getBackendService (exampleProviderData reg rules urlMap) proj reg name) =
     Inr \<lparr>bs_Id = Some 4242, bs_Name = Some name\<rparr>"
  by (simp add: example_backendService exampleBackendServices_def)

lemma example_matches:
  "forwardingRuleMatches exampleUnmarshal exampleData (exampleRule name description target) \<longleftrightarrow>
     description = gatewayDescription"
  by (simp add: forwardingRuleMatches_def descriptionMatches_def GetDescription_def
        k8sResourcePath_def example_defs)

lemma example_global_calls:
  "fst (listForwardingRules pd proj Null) = GlobalForwardingRules_List proj"
  "fst (getTargetHttpsProxy pd proj Null name) = TargetHttpsProxies_Get proj name"
  "fst (getUrlMap pd proj Null name) = UrlMaps_Get proj name"
  "fst (getBackendService pd proj Null name) = BackendServices_Get proj name"
  by (simp_all add: listForwardingRules_def getTargetHttpsProxy_def getUrlMap_def
        getBackendService_def)

lemma example_regional_calls:
  "fst (listForwardingRules pd proj (Known r)) = ForwardingRules_List proj r"
  "fst (getTargetHttpsProxy pd proj (Known r) name) = RegionTargetHttpsProxies_Get proj r name"
  "fst (getUrlMap pd proj (Known r) name) = RegionUrlMaps_Get proj r name"
  "fst (getBackendService pd proj (Known r) name) = RegionBackendServices_Get proj r name"
  by (simp_all add: listForwardingRules_def getTargetHttpsProxy_def getUrlMap_def
        getBackendService_def)

lemma example_target:
  "Split (GetTarget (gatewayRule name)) CHR ''/'' =
     [''https:'', [], ''compute'', ''projects'', ''my-gcp-project'', ''global''] @
     [''targetHttpsProxies'', ''proxy-1'']"
  by (simp add: GetTarget_def gatewayRule_def exampleRule_def httpsTarget_def)

lemma example_proxy1:
  "snd (getTargetHttpsProxy (exampleProviderData reg rules urlMap) proj reg ''proxy-1'') =
     Inr proxy1"
  by (simp add: example_proxy exampleProxies_def)

lemma example_map1: "lastComponent (GetUrlMap proxy1) = ''map-1''"
  by (simp add: lastComponent_def GetUrlMap_def proxy1_def)

lemma example_urlMap1:
  "snd (getUrlMap (exampleProviderData reg rules urlMap) proj reg
          (lastComponent (GetUrlMap proxy1))) = Inr urlMap"
  by (rule example_urlMap)

lemma example_one:
  "filter (forwardingRuleMatches exampleUnmarshal exampleData) [gatewayRule name] =
     [gatewayRule name]"
  by (simp add: gatewayRule_def example_matches)

lemma example_listing_rules:
  "snd (listForwardingRules (exampleProviderData reg (map Inr rules) urlMap) proj reg) =
     map Inr rules"
  by (rule example_listing)

lemma example_paths:
  "backendServicePaths (serviceUrlMap []) = []"
  "backendServicePaths (serviceUrlMap [svc1]) = map Some [svc1]"
  "backendServicePaths (serviceUrlMap [svc1, svc2]) = map Some [svc1, svc2]"
  by (simp_all add: backendServicePaths_def serviceUrlMap_def matcherStep_def actionStep_def)

lemma example_run:
  "Read exampleUnmarshal (exampleDataSource reg (map Inr [gatewayRule name]) urlMap)
     exampleRequest emptyResponse =
   invoke (fst (listForwardingRules (exampleProviderData reg (map Inr [gatewayRule name]) urlMap)
                  ''my-gcp-project'' reg))
     (invoke (fst (getTargetHttpsProxy
                     (exampleProviderData reg (map Inr [gatewayRule name]) urlMap)
                     ''my-gcp-project'' reg ''proxy-1''))
        (invoke (fst (getUrlMap (exampleProviderData reg (map Inr [gatewayRule name]) urlMap)
                        ''my-gcp-project'' reg ''map-1''))
           (Read_backendService (exampleProviderData reg (map Inr [gatewayRule name]) urlMap)
              ''my-gcp-project'' reg exampleData emptyResponse (backendServicePaths urlMap))))"
  using Read_to_extraction [OF example_checks example_data example_project example_region
      example_listing_rules example_one example_target example_proxy1 example_urlMap1]
  by (simp add: example_map1 example_append)

lemma example_two:
  "filter (forwardingRuleMatches exampleUnmarshal exampleData)
     [gatewayRule ''fr-a'', otherRule, gatewayRule ''fr-b''] =
   [gatewayRule ''fr-a'', gatewayRule ''fr-b'']"
  by (simp add: gatewayRule_def otherRule_def example_matches gatewayDescription_def)

section \<open>The extraction of the candidate paths\<close>

text \<open>
  C3. For every URL map, the backend service paths that \<open>Read\<close> extracts are the
  candidate paths of the specification: the URL map's default service if present, then
  each path matcher's default service if present, in the order of the matchers, then the
  backend services of every collected route action that is present and has no fault
  injection policy, in the order listed. A route action that carries a fault injection
  policy adds no path, whatever its weighted backend services are.
\<close>

theorem backendServicePaths_spec:
  "backendServicePaths urlMap = spec_candidatePaths urlMap \<and>
   actionStep paths (Some (a\<lparr>FaultInjectionPolicy := Some f\<rparr>)) = paths"
proof
  show "backendServicePaths urlMap = spec_candidatePaths urlMap"
    by (cases "um_DefaultService urlMap")
       (simp_all add: backendServicePaths_def spec_candidatePaths_def collectedActions_def
          foldl_matcherStep foldl_actionStep presentPath_def)
  show "actionStep paths (Some (a\<lparr>FaultInjectionPolicy := Some f\<rparr>)) = paths"
    by (simp add: actionStep_def)
qed

text \<open>
  On a URL map whose default route action injects faults: its weighted backend service is
  left out, the others follow the default service in order.
\<close>

theorem backendServicePaths_spec_witness:
  "backendServicePaths routedUrlMap = [Some svc1, Some svc2, Some svc1]"
  unfolding backendServicePaths_spec [THEN conjunct1]
  by (simp add: spec_candidatePaths_def presentPath_def collectedActions_def matcherActions_def
        actionCandidates_def routedUrlMap_def)

section \<open>The outcomes of the resolution\<close>

text \<open>
  C1, as the code has it. A call passes the checks and the listing gives the rules
  \<open>rules\<close> and then \<open>Done\<close>. If no rule matches, \<open>Read\<close> returns after the listing
  with the response as it stood after decoding the configuration: no diagnostic is added
  and the state is not set. If one rule matches, its target is an HTTPS proxy, the proxy
  and its URL map are fetched, and the URL map gives no backend service path, then
  \<open>Read\<close> returns with the error diagnostic \<open>No backend services found\<close>, whose detail
  is empty, and the state is not set.
\<close>

theorem no_candidates:
  assumes "passesChecks d req resp0 pd"
    and "data = ConfigGet_data req"
    and "proj = effectiveProject pd data"
    and "reg = effectiveRegion pd data"
    and "snd (listForwardingRules pd proj reg) = map Inr rules"
  shows "(filter (forwardingRuleMatches unmarshal data) rules = [] \<longrightarrow>
            Read unmarshal d req resp0 =
              ([fst (listForwardingRules pd proj reg)],
               Inr (appendConfigDiagnostics req resp0))) \<and>
         (filter (forwardingRuleMatches unmarshal data) rules = [rule] \<and>
          Split (GetTarget rule) CHR ''/'' = pre @ [''targetHttpsProxies'', name] \<and>
          snd (getTargetHttpsProxy pd proj reg name) = Inr proxy \<and>
          snd (getUrlMap pd proj reg (lastComponent (GetUrlMap proxy))) = Inr urlMap \<and>
          backendServicePaths urlMap = [] \<longrightarrow>
            Read unmarshal d req resp0 =
              ([fst (listForwardingRules pd proj reg),
                fst (getTargetHttpsProxy pd proj reg name),
                fst (getUrlMap pd proj reg (lastComponent (GetUrlMap proxy)))],
               Inr (withError (appendConfigDiagnostics req resp0)
                      ''No backend services found'' [])))"
proof (intro conjI impI)
  assume "filter (forwardingRuleMatches unmarshal data) rules = []"
  then show "Read unmarshal d req resp0 =
      ([fst (listForwardingRules pd proj reg)], Inr (appendConfigDiagnostics req resp0))"
    using Read_to_matches [OF assms, of unmarshal] by (simp add: invoke_def returns_def)
next
  assume h: "filter (forwardingRuleMatches unmarshal data) rules = [rule] \<and>
          Split (GetTarget rule) CHR ''/'' = pre @ [''targetHttpsProxies'', name] \<and>
          snd (getTargetHttpsProxy pd proj reg name) = Inr proxy \<and>
          snd (getUrlMap pd proj reg (lastComponent (GetUrlMap proxy))) = Inr urlMap \<and>
          backendServicePaths urlMap = []"
  then have "Read unmarshal d req resp0 =
           invoke (fst (listForwardingRules pd proj reg))
             (invoke (fst (getTargetHttpsProxy pd proj reg name))
                (invoke (fst (getUrlMap pd proj reg (lastComponent (GetUrlMap proxy))))
                   (Read_backendService pd proj reg data (appendConfigDiagnostics req resp0)
                      (backendServicePaths urlMap))))"
    using Read_to_extraction [OF assms, of unmarshal rule pre name proxy urlMap] by simp
  then show "Read unmarshal d req resp0 =
              ([fst (listForwardingRules pd proj reg),
                fst (getTargetHttpsProxy pd proj reg name),
                fst (getUrlMap pd proj reg (lastComponent (GetUrlMap proxy)))],
               Inr (withError (appendConfigDiagnostics req resp0)
                      ''No backend services found'' []))"
    using h passesChecks_no_error [OF assms(1)]
    by (simp add: Read_backendService_none invoke_def)
qed

text \<open>
  A run with no matching rule, and a run whose URL map names no backend service.
\<close>

theorem no_candidates_witness:
  "filter (forwardingRuleMatches exampleUnmarshal exampleData) [otherRule] = [] \<and>
   Read exampleUnmarshal (exampleDataSource Null (map Inr [otherRule]) (serviceUrlMap []))
     exampleRequest emptyResponse =
     ([GlobalForwardingRules_List ''my-gcp-project''], Inr emptyResponse) \<and>
   filter (forwardingRuleMatches exampleUnmarshal exampleData) [gatewayRule ''fr-1''] =
     [gatewayRule ''fr-1''] \<and>
   backendServicePaths (serviceUrlMap []) = [] \<and>
   Read exampleUnmarshal (exampleDataSource Null (map Inr [gatewayRule ''fr-1'']) (serviceUrlMap []))
     exampleRequest emptyResponse =
     ([GlobalForwardingRules_List ''my-gcp-project'',
       TargetHttpsProxies_Get ''my-gcp-project'' ''proxy-1'',
       UrlMaps_Get ''my-gcp-project'' ''map-1''],
      Inr \<lparr>Diagnostics = [ErrorDiagnostic ''No backend services found'' []], State = None\<rparr>)"
proof -
  have none: "filter (forwardingRuleMatches exampleUnmarshal exampleData) [otherRule] = []"
    by (simp add: otherRule_def example_matches gatewayDescription_def)
  from no_candidates [OF example_checks [of Null _ "serviceUrlMap []"] example_data
      example_project example_region example_listing_rules, THEN conjunct1,
      of exampleUnmarshal "[otherRule]"] none
  have a: "Read exampleUnmarshal (exampleDataSource Null (map Inr [otherRule]) (serviceUrlMap []))
     exampleRequest emptyResponse =
     ([GlobalForwardingRules_List ''my-gcp-project''], Inr emptyResponse)"
    by (simp add: example_append example_global_calls)
  from no_candidates [OF example_checks [of Null] example_data example_project example_region
      example_listing_rules, THEN conjunct2, THEN mp,
      OF conjI [OF example_one [of "''fr-1''"] conjI [OF example_target conjI [OF example_proxy1
        conjI [OF example_urlMap1 example_paths(1)]]]]]
  have b: "Read exampleUnmarshal
      (exampleDataSource Null (map Inr [gatewayRule ''fr-1'']) (serviceUrlMap []))
     exampleRequest emptyResponse =
     ([GlobalForwardingRules_List ''my-gcp-project'',
       TargetHttpsProxies_Get ''my-gcp-project'' ''proxy-1'',
       UrlMaps_Get ''my-gcp-project'' ''map-1''],
      Inr \<lparr>Diagnostics = [ErrorDiagnostic ''No backend services found'' []], State = None\<rparr>)"
    by (simp add: example_map1 example_append example_global_calls)
       (simp add: withError_def emptyResponse_def)
  from none a example_one b example_paths(1) show ?thesis by simp
qed

text \<open>
  The URL map of the one matching rule names no backend service, and the response
  carries an error diagnostic: it is not the response the call started with.
\<close>

theorem no_candidates_counterexample:
  "backendServicePaths (serviceUrlMap []) = [] \<and>
   snd (Read exampleUnmarshal
          (exampleDataSource Null (map Inr [gatewayRule ''fr-1'']) (serviceUrlMap []))
          exampleRequest emptyResponse) =
     Inr \<lparr>Diagnostics = [ErrorDiagnostic ''No backend services found'' []], State = None\<rparr> \<and>
   snd (Read exampleUnmarshal
          (exampleDataSource Null (map Inr [gatewayRule ''fr-1'']) (serviceUrlMap []))
          exampleRequest emptyResponse) \<noteq> Inr emptyResponse"
  unfolding example_run
  by (simp add: example_paths Read_backendService_def invoke_def returns_def addError_def
        AddError_def Append_def emptyResponse_def)

text \<open>
  C2. The listing gives one forwarding rule, whose description is
  \<open>{"k8sResource":"/namespaces/my-cool-app/gateways/my-gateway-name"}\<close> (which the
  decoder reads as that field) and whose target ends in the path components
  \<open>targetHttpsProxies\<close> and \<open>proxy-1\<close>; the request is for that namespace and gateway.
  The proxy's URL map has a default service ending in \<open>backendServices/svc-1\<close>, no
  default route action and no path matchers, and every fetch succeeds, the backend
  service fetched under the name \<open>svc-1\<close> bearing that name. Then \<open>Read\<close> makes the four
  lookups and sets the state to the model with the backend service named \<open>svc-1\<close>,
  whose id is the fetched numeric id in decimal; no diagnostic is added.
\<close>

theorem resolves_single_service:
  assumes checks: "passesChecks d req resp0 pd"
    and data: "data = ConfigGet_data req"
    and proj: "proj = effectiveProject pd data"
    and reg: "reg = effectiveRegion pd data"
    and ns: "Namespace data = Known ''my-cool-app''"
    and gw: "Gateway data = Known ''my-gateway-name''"
    and listing: "snd (listForwardingRules pd proj reg) = [Inr rule]"
    and desc: "fr_Description rule =
                 Some ''{\"k8sResource\":\"/namespaces/my-cool-app/gateways/my-gateway-name\"}''"
    and decode: "unmarshal ''{\"k8sResource\":\"/namespaces/my-cool-app/gateways/my-gateway-name\"}'' =
                   Inr \<lparr>K8sResource = Some ''/namespaces/my-cool-app/gateways/my-gateway-name''\<rparr>"
    and target: "fr_Target rule = Some (p @ ''/targetHttpsProxies/proxy-1'')"
    and proxy: "snd (getTargetHttpsProxy pd proj reg ''proxy-1'') = Inr proxy"
    and urlMap: "snd (getUrlMap pd proj reg (lastComponent (GetUrlMap proxy))) = Inr urlMap"
    and service: "um_DefaultService urlMap = Some (q @ ''backendServices/svc-1'')"
    and noAction: "um_DefaultRouteAction urlMap = None"
    and noMatchers: "PathMatchers urlMap = []"
    and fetched: "snd (getBackendService pd proj reg ''svc-1'') = Inr backendService"
    and name: "bs_Name backendService = Some ''svc-1''"
  shows "Read unmarshal d req resp0 =
           ([fst (listForwardingRules pd proj reg),
             fst (getTargetHttpsProxy pd proj reg ''proxy-1''),
             fst (getUrlMap pd proj reg (lastComponent (GetUrlMap proxy))),
             fst (getBackendService pd proj reg ''svc-1'')],
            Inr ((appendConfigDiagnostics req resp0)\<lparr>State := Some (data\<lparr>BackendService := Some
              \<lparr>ID = Known (FormatUint10 (GetId backendService)), Name = Known ''svc-1''\<rparr>\<rparr>)\<rparr>))"
proof -
  have listing': "snd (listForwardingRules pd proj reg) = map Inr [rule]"
    using listing by simp
  have matching: "filter (forwardingRuleMatches unmarshal data) [rule] = [rule]"
    using desc decode ns gw
    by (simp add: forwardingRuleMatches_def descriptionMatches_def GetDescription_def
          k8sResourcePath_def)
  have split: "Split (GetTarget rule) CHR ''/'' =
                 Split p CHR ''/'' @ [''targetHttpsProxies'', ''proxy-1'']"
    using target by (simp only: GetTarget_def option.case Split_https_target)
  have paths: "backendServicePaths urlMap = [Some (q @ ''backendServices/svc-1'')]"
    using service noAction noMatchers by (simp add: backendServicePaths_def actionStep_def)
  have fetched': "snd (getBackendService pd proj reg
                    (lastComponent (q @ ''backendServices/svc-1''))) = Inr backendService"
    using fetched by (simp only: lastComponent_svc1)
  have "Read unmarshal d req resp0 =
           invoke (fst (listForwardingRules pd proj reg))
             (invoke (fst (getTargetHttpsProxy pd proj reg ''proxy-1''))
                (invoke (fst (getUrlMap pd proj reg (lastComponent (GetUrlMap proxy))))
                   (Read_backendService pd proj reg data (appendConfigDiagnostics req resp0)
                      (backendServicePaths urlMap))))"
    using checks data proj reg listing' matching split proxy urlMap by (rule Read_to_extraction)
  then show ?thesis
    unfolding paths Read_backendService_one [OF fetched'] lastComponent_svc1
    using name by (simp add: invoke_def bs_GetName_def)
qed

text \<open>
  The run in the region \<open>us-central1\<close>, where the backend service has the id 4242.
\<close>

theorem resolves_single_service_witness:
  "Read exampleUnmarshal
     (exampleDataSource (Known ''us-central1'') [Inr (gatewayRule ''fr-1'')] (serviceUrlMap [svc1]))
     exampleRequest emptyResponse =
     ([ForwardingRules_List ''my-gcp-project'' ''us-central1'',
       RegionTargetHttpsProxies_Get ''my-gcp-project'' ''us-central1'' ''proxy-1'',
       RegionUrlMaps_Get ''my-gcp-project'' ''us-central1'' ''map-1'',
       RegionBackendServices_Get ''my-gcp-project'' ''us-central1'' ''svc-1''],
      Inr \<lparr>Diagnostics = [],
           State = Some (exampleData\<lparr>BackendService :=
             Some \<lparr>ID = Known ''4242'', Name = Known ''svc-1''\<rparr>\<rparr>)\<rparr>)"
proof -
  let ?pd = "exampleProviderData (Known ''us-central1'') [Inr (gatewayRule ''fr-1'')]
               (serviceUrlMap [svc1])"
  let ?service = "\<lparr>bs_Id = Some 4242, bs_Name = Some ''svc-1''\<rparr>"
  have ns: "Namespace exampleData = Known ''my-cool-app''"
    and gw: "Gateway exampleData = Known ''my-gateway-name''"
    by (simp_all add: exampleData_def)
  have listing: "snd (listForwardingRules ?pd ''my-gcp-project'' (Known ''us-central1'')) =
                   [Inr (gatewayRule ''fr-1'')]"
    by (simp add: example_listing)
  have desc: "fr_Description (gatewayRule ''fr-1'') =
                Some ''{\"k8sResource\":\"/namespaces/my-cool-app/gateways/my-gateway-name\"}''"
    by (simp add: gatewayRule_def exampleRule_def gatewayDescription_def)
  have decode:
    "exampleUnmarshal ''{\"k8sResource\":\"/namespaces/my-cool-app/gateways/my-gateway-name\"}'' =
       Inr \<lparr>K8sResource = Some ''/namespaces/my-cool-app/gateways/my-gateway-name''\<rparr>"
    by (simp add: exampleUnmarshal_def gatewayDescription_def)
  have target: "fr_Target (gatewayRule ''fr-1'') =
      Some (''https://compute/projects/my-gcp-project/global'' @ ''/targetHttpsProxies/proxy-1'')"
    by (simp add: gatewayRule_def exampleRule_def httpsTarget_def)
  have proxy: "snd (getTargetHttpsProxy ?pd ''my-gcp-project'' (Known ''us-central1'') ''proxy-1'') =
                 Inr proxy1"
    by (rule example_proxy1)
  have urlMap: "snd (getUrlMap ?pd ''my-gcp-project'' (Known ''us-central1'')
                  (lastComponent (GetUrlMap proxy1))) = Inr (serviceUrlMap [svc1])"
    by (simp add: example_urlMap)
  have service: "um_DefaultService (serviceUrlMap [svc1]) =
      Some (''https://compute/projects/my-gcp-project/global/'' @ ''backendServices/svc-1'')"
    and noAction: "um_DefaultRouteAction (serviceUrlMap [svc1]) = None"
    and noMatchers: "PathMatchers (serviceUrlMap [svc1]) = []"
    by (simp_all add: serviceUrlMap_def svc1_def)
  have fetched: "snd (getBackendService ?pd ''my-gcp-project'' (Known ''us-central1'') ''svc-1'') =
                   Inr ?service"
    by (simp add: example_backendService exampleBackendServices_def)
  have name: "bs_Name ?service = Some ''svc-1''"
    by simp
  have "FormatUint10 (GetId ?service) = ''4242''"
    by (simp add: FormatUint10_def GetId_def formatBits.simps digit_def)
  with resolves_single_service [where unmarshal = exampleUnmarshal,
      OF example_checks example_data example_project example_region
      ns gw listing desc decode target proxy urlMap service noAction noMatchers fetched name]
  show ?thesis
    by (simp add: example_append example_regional_calls example_map1)
       (simp add: emptyResponse_def)
qed

text \<open>
  C4. A description matches exactly when it decodes and the decoded record has the
  field \<open>k8sResource\<close> with the value \<open>/namespaces/{namespace}/gateways/{gateway}\<close>,
  compared as strings: a description that fails to decode, one without the field, and
  one whose value is any other string (a prefix, a suffix, another case) do not match.
  A forwarding rule is tested on its description with the requested namespace and
  gateway, and no description makes the loop leave with an error: over rules alone it
  ends with exactly the matching rules, in their order.
\<close>

theorem correlation_match:
  "(descriptionMatches unmarshal namespace gateway description \<longleftrightarrow>
      (\<exists>frd. unmarshal description = Inr frd \<and>
             K8sResource frd = Some (''/namespaces/'' @ namespace @ ''/gateways/'' @ gateway))) \<and>
   forwardingRuleMatches unmarshal data rule =
     descriptionMatches unmarshal (ValueString (Namespace data)) (ValueString (Gateway data))
       (GetDescription rule) \<and>
   forwardingRulesLoop unmarshal data (map Inr rules) [] =
     Break (filter (forwardingRuleMatches unmarshal data) rules)"
  by (auto simp: descriptionMatches_def k8sResourcePath_def forwardingRuleMatches_def
        forwardingRulesLoop_rules split: sum.splits option.splits)

text \<open>
  The gateway's description matches; a value that is a prefix, a suffix or a case variant,
  an object without the field and a text that does not decode do not.
\<close>

theorem correlation_match_witness:
  "descriptionMatches exampleUnmarshal ''my-cool-app'' ''my-gateway-name''
     ''{\"k8sResource\":\"/namespaces/my-cool-app/gateways/my-gateway-name\"}'' \<and>
   \<not> descriptionMatches exampleUnmarshal ''my-cool-app'' ''my-gateway-name''
     ''{\"k8sResource\":\"/namespaces/my-cool-app/gateways/my-gateway\"}'' \<and>
   \<not> descriptionMatches exampleUnmarshal ''my-cool-app'' ''my-gateway-name''
     ''{\"k8sResource\":\"my-cool-app/gateways/my-gateway-name\"}'' \<and>
   \<not> descriptionMatches exampleUnmarshal ''my-cool-app'' ''my-gateway-name''
     ''{\"k8sResource\":\"/namespaces/My-Cool-App/gateways/my-gateway-name\"}'' \<and>
   \<not> descriptionMatches exampleUnmarshal ''my-cool-app'' ''my-gateway-name'' ''{}'' \<and>
   \<not> descriptionMatches exampleUnmarshal ''my-cool-app'' ''my-gateway-name'' ''created by hand''"
proof -
  note iff = correlation_match [THEN conjunct1, of exampleUnmarshal "''my-cool-app''"
      "''my-gateway-name''"]
  show ?thesis
    unfolding iff by (simp add: exampleUnmarshal_def gatewayDescription_def)
qed

text \<open>
  Ambiguity with every candidate present. A call passes the checks and the listing gives
  the rules \<open>rules\<close> and then \<open>Done\<close>. If two or more rules match, \<open>Read\<close> returns
  after the listing with the error diagnostic \<open>Multiple matching forwarding rules found\<close>,
  whose detail is the heading followed by one line per matching rule with its name, in
  the order of the listing; for rules named \<open>fr-a\<close> and \<open>fr-b\<close> the detail lists both
  names. If one rule matches and the URL map of its HTTPS proxy gives two or more backend
  service paths, none of them a nil pointer, \<open>Read\<close> returns with the error diagnostic
  \<open>Multiple backend services found\<close>, whose detail is the heading followed by one line
  per path with its last component, in the order of the paths.
\<close>

lemma ambiguity_reported:
  assumes "passesChecks d req resp0 pd"
    and "data = ConfigGet_data req"
    and "proj = effectiveProject pd data"
    and "reg = effectiveRegion pd data"
    and "snd (listForwardingRules pd proj reg) = map Inr rules"
    and m: "matching = filter (forwardingRuleMatches unmarshal data) rules"
  shows "(2 \<le> length matching \<longrightarrow>
            Read unmarshal d req resp0 =
              ([fst (listForwardingRules pd proj reg)],
               Inr (withError (appendConfigDiagnostics req resp0)
                      ''Multiple matching forwarding rules found''
                      (''The following forwarding rules matched:'' @ newline @ newline @
                       labelLines (map GetName matching))))) \<and>
         (map GetName matching = [''fr-a'', ''fr-b''] \<longrightarrow>
            snd (Read unmarshal d req resp0) =
              Inr (withError (appendConfigDiagnostics req resp0)
                     ''Multiple matching forwarding rules found''
                     (''The following forwarding rules matched:'' @ newline @ newline @
                      ''  - fr-a'' @ newline @ ''  - fr-b'' @ newline))) \<and>
         (matching = [rule] \<and>
          Split (GetTarget rule) CHR ''/'' = pre @ [''targetHttpsProxies'', name] \<and>
          snd (getTargetHttpsProxy pd proj reg name) = Inr proxy \<and>
          snd (getUrlMap pd proj reg (lastComponent (GetUrlMap proxy))) = Inr urlMap \<and>
          backendServicePaths urlMap = map Some paths \<and> 2 \<le> length paths \<longrightarrow>
            Read unmarshal d req resp0 =
              ([fst (listForwardingRules pd proj reg),
                fst (getTargetHttpsProxy pd proj reg name),
                fst (getUrlMap pd proj reg (lastComponent (GetUrlMap proxy)))],
               Inr (withError (appendConfigDiagnostics req resp0)
                      ''Multiple backend services found''
                      (''The following backend services matched:'' @ newline @ newline @
                       labelLines (map lastComponent paths)))))"
proof -
  note noError = passesChecks_no_error [OF assms(1)]
  have many: "Read unmarshal d req resp0 =
              ([fst (listForwardingRules pd proj reg)],
               Inr (withError (appendConfigDiagnostics req resp0)
                      ''Multiple matching forwarding rules found''
                      (''The following forwarding rules matched:'' @ newline @ newline @
                       labelLines (map GetName matching))))"
    if "2 \<le> length matching"
  proof -
    from that have "length matching \<noteq> 0" and "length matching > 1" by auto
    then show ?thesis
      unfolding Read_to_matches [OF assms(1-5), of unmarshal] m [symmetric] Let_def
      by (simp add: invoke_def returns_def addError_withError [OF noError]
            forwardingRulesDebugMessage_eq)
  qed
  have two: "snd (Read unmarshal d req resp0) =
              Inr (withError (appendConfigDiagnostics req resp0)
                     ''Multiple matching forwarding rules found''
                     (''The following forwarding rules matched:'' @ newline @ newline @
                      ''  - fr-a'' @ newline @ ''  - fr-b'' @ newline))"
    if names: "map GetName matching = [''fr-a'', ''fr-b'']"
  proof -
    from names have "length (map GetName matching) = 2" by simp
    then have "2 \<le> length matching" by simp
    from many [OF this] show ?thesis
      by (simp add: names labelLines_def)
  qed
  have paths: "Read unmarshal d req resp0 =
              ([fst (listForwardingRules pd proj reg),
                fst (getTargetHttpsProxy pd proj reg name),
                fst (getUrlMap pd proj reg (lastComponent (GetUrlMap proxy)))],
               Inr (withError (appendConfigDiagnostics req resp0)
                      ''Multiple backend services found''
                      (''The following backend services matched:'' @ newline @ newline @
                       labelLines (map lastComponent paths))))"
    if h: "matching = [rule] \<and>
          Split (GetTarget rule) CHR ''/'' = pre @ [''targetHttpsProxies'', name] \<and>
          snd (getTargetHttpsProxy pd proj reg name) = Inr proxy \<and>
          snd (getUrlMap pd proj reg (lastComponent (GetUrlMap proxy))) = Inr urlMap \<and>
          backendServicePaths urlMap = map Some paths \<and> 2 \<le> length paths"
  proof -
    from h m have one: "filter (forwardingRuleMatches unmarshal data) rules = [rule]" by simp
    have "Read unmarshal d req resp0 =
           invoke (fst (listForwardingRules pd proj reg))
             (invoke (fst (getTargetHttpsProxy pd proj reg name))
                (invoke (fst (getUrlMap pd proj reg (lastComponent (GetUrlMap proxy))))
                   (Read_backendService pd proj reg data (appendConfigDiagnostics req resp0)
                      (backendServicePaths urlMap))))"
      using h by (intro Read_to_extraction [OF assms(1-5) one, of pre name]) simp_all
    then show ?thesis
      using h by (simp add: Read_backendService_many [OF noError] invoke_def)
  qed
  from many two paths show ?thesis by blast
qed

text \<open>
  A run with two matching rules among three, and a run whose URL map names two backend
  services.
\<close>

lemma ambiguity_reported_example:
  "Read exampleUnmarshal
     (exampleDataSource Null (map Inr [gatewayRule ''fr-a'', otherRule, gatewayRule ''fr-b''])
        (serviceUrlMap [svc1]))
     exampleRequest emptyResponse =
     ([GlobalForwardingRules_List ''my-gcp-project''],
      Inr \<lparr>Diagnostics = [ErrorDiagnostic ''Multiple matching forwarding rules found''
             (''The following forwarding rules matched:'' @ newline @ newline @
              ''  - fr-a'' @ newline @ ''  - fr-b'' @ newline)],
           State = None\<rparr>) \<and>
   backendServicePaths (serviceUrlMap [svc1, svc2]) = map Some [svc1, svc2] \<and>
   Read exampleUnmarshal
     (exampleDataSource Null (map Inr [gatewayRule ''fr-1'']) (serviceUrlMap [svc1, svc2]))
     exampleRequest emptyResponse =
     ([GlobalForwardingRules_List ''my-gcp-project'',
       TargetHttpsProxies_Get ''my-gcp-project'' ''proxy-1'',
       UrlMaps_Get ''my-gcp-project'' ''map-1''],
      Inr \<lparr>Diagnostics = [ErrorDiagnostic ''Multiple backend services found''
             (''The following backend services matched:'' @ newline @ newline @
              ''  - svc-1'' @ newline @ ''  - svc-2'' @ newline)],
           State = None\<rparr>)"
proof -
  have len: "2 \<le> length [gatewayRule ''fr-a'', gatewayRule ''fr-b'']"
    by simp
  have names: "map GetName [gatewayRule ''fr-a'', gatewayRule ''fr-b''] = [''fr-a'', ''fr-b'']"
    by (simp add: GetName_def gatewayRule_def exampleRule_def)
  note rules = ambiguity_reported [OF example_checks [of Null _ "serviceUrlMap [svc1]"]
      example_data example_project example_region example_listing_rules
      example_two [symmetric]]
  from rules [THEN conjunct1, THEN mp, OF len] rules [THEN conjunct2, THEN conjunct1, THEN mp, OF names]
  have a: "Read exampleUnmarshal
     (exampleDataSource Null (map Inr [gatewayRule ''fr-a'', otherRule, gatewayRule ''fr-b''])
        (serviceUrlMap [svc1]))
     exampleRequest emptyResponse =
     ([GlobalForwardingRules_List ''my-gcp-project''],
      Inr \<lparr>Diagnostics = [ErrorDiagnostic ''Multiple matching forwarding rules found''
             (''The following forwarding rules matched:'' @ newline @ newline @
              ''  - fr-a'' @ newline @ ''  - fr-b'' @ newline)],
           State = None\<rparr>)"
    by (simp add: example_append example_global_calls labelLines_def names)
       (simp add: withError_def emptyResponse_def)
  have two: "2 \<le> length [svc1, svc2]"
    by simp
  have last: "lastComponent svc1 = ''svc-1''" "lastComponent svc2 = ''svc-2''"
    by (simp_all add: lastComponent_def svc1_def svc2_def)
  from ambiguity_reported [OF example_checks [of Null _ "serviceUrlMap [svc1, svc2]"]
      example_data example_project example_region example_listing_rules
      example_one [of "''fr-1''", symmetric],
      THEN conjunct2, THEN conjunct2, THEN mp,
      OF conjI [OF refl conjI [OF example_target conjI [OF example_proxy1
        conjI [OF example_urlMap1 conjI [OF example_paths(3) two]]]]]]
  have b: "Read exampleUnmarshal
     (exampleDataSource Null (map Inr [gatewayRule ''fr-1'']) (serviceUrlMap [svc1, svc2]))
     exampleRequest emptyResponse =
     ([GlobalForwardingRules_List ''my-gcp-project'',
       TargetHttpsProxies_Get ''my-gcp-project'' ''proxy-1'',
       UrlMaps_Get ''my-gcp-project'' ''map-1''],
      Inr \<lparr>Diagnostics = [ErrorDiagnostic ''Multiple backend services found''
             (''The following backend services matched:'' @ newline @ newline @
              ''  - svc-1'' @ newline @ ''  - svc-2'' @ newline)],
           State = None\<rparr>)"
    by (simp add: example_map1 example_append example_global_calls last labelLines_def)
       (simp add: withError_def emptyResponse_def)
  from a example_paths(3) b show ?thesis by simp
qed

text \<open>
  C5. Two or more candidates are to be reported as ambiguous, each by its label. For
  the forwarding rules they are. For the backend service paths they are not when one of
  the path pointers is nil: the path of a weighted backend service is appended without
  the test that the default services get, and the loop that builds the message
  dereferences it. On a URL map with a default service and a weighted backend service
  whose path is not set, the extraction gives two candidates and \<open>Read\<close> panics with a
  nil pointer dereference after its three lookups; there is no response and no
  diagnostic.
\<close>

theorem ambiguous_nil_candidate:
  "backendServicePaths unsetServiceUrlMap = [Some svc1, None] \<and>
   Read exampleUnmarshal
     (exampleDataSource Null (map Inr [gatewayRule ''fr-1'']) unsetServiceUrlMap)
     exampleRequest emptyResponse =
     ([GlobalForwardingRules_List ''my-gcp-project'',
       TargetHttpsProxies_Get ''my-gcp-project'' ''proxy-1'',
       UrlMaps_Get ''my-gcp-project'' ''map-1''],
      Inl NilPointerDereference)"
proof -
  have paths: "backendServicePaths unsetServiceUrlMap = [Some svc1, None]"
    by (simp add: backendServicePaths_def unsetServiceUrlMap_def actionStep_def)
  have "Read_backendService pd proj reg data resp [Some svc1, None] =
          ([], Inl NilPointerDereference)" for pd proj reg data resp
    by (rule Read_backendService_nil) simp_all
  then show ?thesis
    unfolding example_run paths
    by (simp add: invoke_def example_global_calls)
qed

text \<open>
  C6. One rule matches and its target contains a \<open>/\<close>; the kind is the component
  before the last of the target split at \<open>/\<close>. If the kind is not
  \<open>targetHttpsProxies\<close>, \<open>Read\<close> returns with the error diagnostic
  \<open>Unsupported target type for forwarding rule\<close>, whose detail names the rule and the
  kind, and the listing is the only client call: no proxy is fetched.
\<close>

theorem unsupported_target:
  assumes "passesChecks d req resp0 pd"
    and "data = ConfigGet_data req"
    and "proj = effectiveProject pd data"
    and "reg = effectiveRegion pd data"
    and "snd (listForwardingRules pd proj reg) = map Inr rules"
    and one: "filter (forwardingRuleMatches unmarshal data) rules = [rule]"
    and slash: "CHR ''/'' \<in> set (GetTarget rule)"
    and kind: "kind = Split (GetTarget rule) CHR ''/'' ! (length (Split (GetTarget rule) CHR ''/'') - 2)"
    and other: "kind \<noteq> ''targetHttpsProxies''"
  shows "Read unmarshal d req resp0 =
           ([fst (listForwardingRules pd proj reg)],
            Inr (withError (appendConfigDiagnostics req resp0)
                   ''Unsupported target type for forwarding rule''
                   (''The '' @ GetName rule @ '' forwarding rule has a target with a type of '' @
                    kind @ '' which is currently unsupported by this provider.'')))"
proof -
  note noError = passesChecks_no_error [OF assms(1)]
  have "index (Split (GetTarget rule) CHR ''/'')
          (int (length (Split (GetTarget rule) CHR ''/'')) - 2) = Inr kind"
    unfolding kind by (rule index_second_last) (rule length_Split_sep [OF slash])
  then have "Read_target pd proj reg data (appendConfigDiagnostics req resp0) rule =
      returns (withError (appendConfigDiagnostics req resp0)
                   ''Unsupported target type for forwarding rule''
                   (unsupportedDetail (GetName rule) kind))"
    using other by (simp add: Read_target_def Let_def addError_withError [OF noError])
  then show ?thesis
    unfolding Read_to_matches [OF assms(1-5), of unmarshal] one Let_def
    by (simp add: invoke_def returns_def unsupportedDetail_def)
qed

text \<open>
  A run whose matching rule targets a TCP proxy.
\<close>

theorem unsupported_target_witness:
  "filter (forwardingRuleMatches exampleUnmarshal exampleData) [tcpRule] = [tcpRule] \<and>
   CHR ''/'' \<in> set (GetTarget tcpRule) \<and>
   Split (GetTarget tcpRule) CHR ''/'' ! (length (Split (GetTarget tcpRule) CHR ''/'') - 2) =
     ''targetTcpProxies'' \<and>
   Read exampleUnmarshal (exampleDataSource Null (map Inr [tcpRule]) (serviceUrlMap [svc1]))
     exampleRequest emptyResponse =
     ([GlobalForwardingRules_List ''my-gcp-project''],
      Inr \<lparr>Diagnostics = [ErrorDiagnostic ''Unsupported target type for forwarding rule''
             ''The fr-tcp forwarding rule has a target with a type of targetTcpProxies which is currently unsupported by this provider.''],
           State = None\<rparr>)"
proof -
  have one: "filter (forwardingRuleMatches exampleUnmarshal exampleData) [tcpRule] = [tcpRule]"
    by (simp add: tcpRule_def example_matches)
  have slash: "CHR ''/'' \<in> set (GetTarget tcpRule)"
    by (simp add: GetTarget_def tcpRule_def exampleRule_def)
  have kind: "''targetTcpProxies'' =
      Split (GetTarget tcpRule) CHR ''/'' ! (length (Split (GetTarget tcpRule) CHR ''/'') - 2)"
    by (simp add: GetTarget_def tcpRule_def exampleRule_def)
  have other: "''targetTcpProxies'' \<noteq> ''targetHttpsProxies''"
    by simp
  have name: "GetName tcpRule = ''fr-tcp''"
    by (simp add: GetName_def tcpRule_def exampleRule_def)
  from unsupported_target [OF example_checks [of Null _ "serviceUrlMap [svc1]"] example_data
      example_project example_region example_listing_rules one slash kind other]
  have "Read exampleUnmarshal (exampleDataSource Null (map Inr [tcpRule]) (serviceUrlMap [svc1]))
     exampleRequest emptyResponse =
     ([GlobalForwardingRules_List ''my-gcp-project''],
      Inr \<lparr>Diagnostics = [ErrorDiagnostic ''Unsupported target type for forwarding rule''
             ''The fr-tcp forwarding rule has a target with a type of targetTcpProxies which is currently unsupported by this provider.''],
           State = None\<rparr>)"
    by (simp add: example_append example_global_calls name)
       (simp add: withError_def emptyResponse_def)
  with one slash kind [symmetric] show ?thesis by simp
qed

text \<open>
  C7. Every client call of a run of \<open>Read\<close> is of the regional variant if the region
  the run works with is set (not null), and of the global variant if it is null.
\<close>

theorem single_variant:
  assumes "providerData d = Some pd"
  shows "\<forall>c \<in> set (fst (Read unmarshal d req resp0)).
           regional c \<longleftrightarrow> \<not> IsNull (effectiveRegion pd (ConfigGet_data req))"
  using assms
  by (auto simp: Read_def Let_def calls_returns split: if_splits
        dest: variant_Read_forwardingRules)

text \<open>
  A whole run in a region and a whole global run: four regional calls, four global calls.
\<close>

theorem single_variant_witness:
  "fst (Read exampleUnmarshal
     (exampleDataSource (Known ''us-central1'') (map Inr [gatewayRule ''fr-1''])
        (serviceUrlMap [svc1])) exampleRequest emptyResponse) =
     [ForwardingRules_List ''my-gcp-project'' ''us-central1'',
      RegionTargetHttpsProxies_Get ''my-gcp-project'' ''us-central1'' ''proxy-1'',
      RegionUrlMaps_Get ''my-gcp-project'' ''us-central1'' ''map-1'',
      RegionBackendServices_Get ''my-gcp-project'' ''us-central1'' ''svc-1''] \<and>
   list_all regional (fst (Read exampleUnmarshal
     (exampleDataSource (Known ''us-central1'') (map Inr [gatewayRule ''fr-1''])
        (serviceUrlMap [svc1])) exampleRequest emptyResponse)) \<and>
   fst (Read exampleUnmarshal
     (exampleDataSource Null (map Inr [gatewayRule ''fr-1''])
        (serviceUrlMap [svc1])) exampleRequest emptyResponse) =
     [GlobalForwardingRules_List ''my-gcp-project'',
      TargetHttpsProxies_Get ''my-gcp-project'' ''proxy-1'',
      UrlMaps_Get ''my-gcp-project'' ''map-1'',
      BackendServices_Get ''my-gcp-project'' ''svc-1''] \<and>
   list_all (\<lambda>c. \<not> regional c) (fst (Read exampleUnmarshal
     (exampleDataSource Null (map Inr [gatewayRule ''fr-1''])
        (serviceUrlMap [svc1])) exampleRequest emptyResponse))"
proof -
  have pd: "providerData (exampleDataSource reg rules urlMap) =
              Some (exampleProviderData reg rules urlMap)" for reg rules urlMap
    by (simp add: exampleDataSource_def)
  have last: "lastComponent svc1 = ''svc-1''"
    by (simp add: lastComponent_def svc1_def)
  have calls: "fst (Read exampleUnmarshal
      (exampleDataSource reg (map Inr [gatewayRule ''fr-1'']) (serviceUrlMap [svc1]))
      exampleRequest emptyResponse) =
    [fst (listForwardingRules (exampleProviderData reg (map Inr [gatewayRule ''fr-1''])
            (serviceUrlMap [svc1])) ''my-gcp-project'' reg),
     fst (getTargetHttpsProxy (exampleProviderData reg (map Inr [gatewayRule ''fr-1''])
            (serviceUrlMap [svc1])) ''my-gcp-project'' reg ''proxy-1''),
     fst (getUrlMap (exampleProviderData reg (map Inr [gatewayRule ''fr-1''])
            (serviceUrlMap [svc1])) ''my-gcp-project'' reg ''map-1''),
     fst (getBackendService (exampleProviderData reg (map Inr [gatewayRule ''fr-1''])
            (serviceUrlMap [svc1])) ''my-gcp-project'' reg ''svc-1'')]" for reg
    unfolding example_run
    by (simp add: example_paths Read_backendService_one [OF example_service]
          invoke_def last)
  from single_variant [OF pd [of "Known ''us-central1''" "map Inr [gatewayRule ''fr-1'']"
        "serviceUrlMap [svc1]"], of exampleUnmarshal exampleRequest emptyResponse]
  have regional: "list_all regional (fst (Read exampleUnmarshal
     (exampleDataSource (Known ''us-central1'') (map Inr [gatewayRule ''fr-1''])
        (serviceUrlMap [svc1])) exampleRequest emptyResponse))"
    by (simp add: list_all_iff example_region [symmetric] example_data [symmetric])
  from single_variant [OF pd [of Null "map Inr [gatewayRule ''fr-1'']"
        "serviceUrlMap [svc1]"], of exampleUnmarshal exampleRequest emptyResponse]
  have global: "list_all (\<lambda>c. \<not> regional c) (fst (Read exampleUnmarshal
     (exampleDataSource Null (map Inr [gatewayRule ''fr-1''])
        (serviceUrlMap [svc1])) exampleRequest emptyResponse))"
    by (simp add: list_all_iff example_region [symmetric] example_data [symmetric])
  from regional global calls [of "Known ''us-central1''"] calls [of Null] show ?thesis
    by (simp add: example_regional_calls example_global_calls)
qed

text \<open>
  C8. The listing gives some rules and then an error other than \<open>Done\<close>. If the
  error is an \<open>APIError\<close> with HTTP code 404, \<open>Read\<close> returns with no diagnostic
  added; otherwise it returns with the error diagnostic
  \<open>Unable to iterate over forwarding rules\<close>, whose detail carries the message of the
  error. In both cases the listing is the only client call.
\<close>

theorem iteration_error:
  assumes "passesChecks d req resp0 pd"
    and "data = ConfigGet_data req"
    and "proj = effectiveProject pd data"
    and "reg = effectiveRegion pd data"
    and listing: "snd (listForwardingRules pd proj reg) = map Inr rules @ Inl err # rest"
    and err: "err \<noteq> Done"
  shows "((\<exists>m. err = APIError 404 m) \<longrightarrow>
            Read unmarshal d req resp0 =
              ([fst (listForwardingRules pd proj reg)], Inr (appendConfigDiagnostics req resp0))) \<and>
         ((\<nexists>m. err = APIError 404 m) \<longrightarrow>
            Read unmarshal d req resp0 =
              ([fst (listForwardingRules pd proj reg)],
               Inr (withError (appendConfigDiagnostics req resp0)
                      ''Unable to iterate over forwarding rules''
                      (''Error calling Google API: '' @ Error err))))"
proof -
  note noError = passesChecks_no_error [OF assms(1)]
  have "Read unmarshal d req resp0 =
          Read_forwardingRules unmarshal pd proj reg data (appendConfigDiagnostics req resp0)"
    using assms(1-4) by (simp add: Read_passesChecks)
  then show ?thesis
    by (simp add: Read_forwardingRules_def listing forwardingRulesLoop_error [OF err]
          is404_iff invoke_def returns_def addError_withError [OF noError] apiErrorDetail_def)
qed

text \<open>
  A listing that fails with the HTTP code 404 after a matching rule, and one that fails
  with the HTTP code 503.
\<close>

theorem iteration_error_witness:
  "Read exampleUnmarshal
     (exampleDataSource Null
        (map Inr [gatewayRule ''fr-1''] @ Inl (APIError 404 ''project not found'') # [])
        (serviceUrlMap [svc1]))
     exampleRequest emptyResponse =
     ([GlobalForwardingRules_List ''my-gcp-project''], Inr emptyResponse) \<and>
   Read exampleUnmarshal
     (exampleDataSource Null
        (map Inr [gatewayRule ''fr-1''] @ Inl (APIError 503 ''backend unavailable'') # [Inr otherRule])
        (serviceUrlMap [svc1]))
     exampleRequest emptyResponse =
     ([GlobalForwardingRules_List ''my-gcp-project''],
      Inr \<lparr>Diagnostics = [ErrorDiagnostic ''Unable to iterate over forwarding rules''
             ''Error calling Google API: backend unavailable''],
           State = None\<rparr>)"
proof -
  have notFound: "\<exists>m. APIError 404 ''project not found'' = APIError 404 m"
    by simp
  have unavailable: "\<nexists>m. APIError 503 ''backend unavailable'' = APIError 404 m"
    by simp
  have notDone: "APIError c m \<noteq> Done" for c m
    by simp
  have listA: "snd (listForwardingRules
      (exampleProviderData Null
         (map Inr [gatewayRule ''fr-1''] @ Inl (APIError 404 ''project not found'') # [])
         (serviceUrlMap [svc1])) ''my-gcp-project'' Null) =
      map Inr [gatewayRule ''fr-1''] @ Inl (APIError 404 ''project not found'') # []"
    by (rule example_listing)
  have listB: "snd (listForwardingRules
      (exampleProviderData Null
         (map Inr [gatewayRule ''fr-1''] @ Inl (APIError 503 ''backend unavailable'') # [Inr otherRule])
         (serviceUrlMap [svc1])) ''my-gcp-project'' Null) =
      map Inr [gatewayRule ''fr-1''] @ Inl (APIError 503 ''backend unavailable'') # [Inr otherRule]"
    by (rule example_listing)
  from iteration_error [where unmarshal = exampleUnmarshal, OF example_checks example_data
      example_project example_region listA notDone, THEN conjunct1, THEN mp, OF notFound]
  have a: "Read exampleUnmarshal
     (exampleDataSource Null
        (map Inr [gatewayRule ''fr-1''] @ Inl (APIError 404 ''project not found'') # [])
        (serviceUrlMap [svc1]))
     exampleRequest emptyResponse =
     ([GlobalForwardingRules_List ''my-gcp-project''], Inr emptyResponse)"
    by (simp add: example_append example_global_calls)
  from iteration_error [where unmarshal = exampleUnmarshal, OF example_checks example_data
      example_project example_region listB notDone, THEN conjunct2, THEN mp, OF unavailable]
  have b: "Read exampleUnmarshal
     (exampleDataSource Null
        (map Inr [gatewayRule ''fr-1''] @ Inl (APIError 503 ''backend unavailable'') # [Inr otherRule])
        (serviceUrlMap [svc1]))
     exampleRequest emptyResponse =
     ([GlobalForwardingRules_List ''my-gcp-project''],
      Inr \<lparr>Diagnostics = [ErrorDiagnostic ''Unable to iterate over forwarding rules''
             ''Error calling Google API: backend unavailable''],
           State = None\<rparr>)"
    by (simp add: example_append example_global_calls)
       (simp add: withError_def emptyResponse_def)
  from a b show ?thesis by simp
qed

text \<open>
  C9. One rule matches. If its target contains no \<open>/\<close>, splitting gives one
  component, the index of the kind is -1, and \<open>Read\<close> panics with an index out of
  range after the listing, with no response. If the target contains a \<open>/\<close>, no run
  of \<open>Read\<close> panics with an index out of range.
\<close>

theorem target_without_separator:
  assumes "passesChecks d req resp0 pd"
    and "data = ConfigGet_data req"
    and "proj = effectiveProject pd data"
    and "reg = effectiveRegion pd data"
    and "snd (listForwardingRules pd proj reg) = map Inr rules"
    and one: "filter (forwardingRuleMatches unmarshal data) rules = [rule]"
  shows "(CHR ''/'' \<notin> set (GetTarget rule) \<longrightarrow>
            Read unmarshal d req resp0 =
              ([fst (listForwardingRules pd proj reg)], Inl (IndexOutOfRange (- 1) 1))) \<and>
         (CHR ''/'' \<in> set (GetTarget rule) \<longrightarrow>
            (\<forall>i n. snd (Read unmarshal d req resp0) \<noteq> Inl (IndexOutOfRange i n)))"
proof -
  have run: "Read unmarshal d req resp0 =
      invoke (fst (listForwardingRules pd proj reg))
        (Read_target pd proj reg data (appendConfigDiagnostics req resp0) rule)"
    unfolding Read_to_matches [OF assms(1-5), of unmarshal] one Let_def by simp
  have "Read_target pd proj reg data (appendConfigDiagnostics req resp0) rule =
          panics (IndexOutOfRange (- 1) 1)"
    if "CHR ''/'' \<notin> set (GetTarget rule)"
    unfolding Read_target_def Let_def Split_no_sep [OF that] index_single by simp
  moreover have "snd (Read unmarshal d req resp0) \<noteq> Inl (IndexOutOfRange i n)"
    if "CHR ''/'' \<in> set (GetTarget rule)" for i n
    unfolding run using no_index_panic_target [OF that] by (simp add: invoke_def)
  ultimately show ?thesis
    unfolding run by (simp add: invoke_def panics_def)
qed

text \<open>
  A run whose matching rule has the target \<open>proxy-1\<close>, and one with a full target.
\<close>

theorem target_without_separator_witness:
  "filter (forwardingRuleMatches exampleUnmarshal exampleData) [bareRule] = [bareRule] \<and>
   CHR ''/'' \<notin> set (GetTarget bareRule) \<and>
   Read exampleUnmarshal (exampleDataSource Null (map Inr [bareRule]) (serviceUrlMap [svc1]))
     exampleRequest emptyResponse =
     ([GlobalForwardingRules_List ''my-gcp-project''], Inl (IndexOutOfRange (- 1) 1)) \<and>
   CHR ''/'' \<in> set (GetTarget (gatewayRule ''fr-1'')) \<and>
   snd (Read exampleUnmarshal
          (exampleDataSource Null (map Inr [gatewayRule ''fr-1'']) (serviceUrlMap [svc1]))
          exampleRequest emptyResponse) \<noteq> Inl (IndexOutOfRange (- 1) 1)"
proof -
  have one: "filter (forwardingRuleMatches exampleUnmarshal exampleData) [bareRule] = [bareRule]"
    by (simp add: bareRule_def example_matches)
  have bare: "CHR ''/'' \<notin> set (GetTarget bareRule)"
    by (simp add: GetTarget_def bareRule_def exampleRule_def)
  have slash: "CHR ''/'' \<in> set (GetTarget (gatewayRule ''fr-1''))"
    by (simp add: GetTarget_def gatewayRule_def exampleRule_def httpsTarget_def)
  from target_without_separator [OF example_checks [of Null _ "serviceUrlMap [svc1]"]
      example_data example_project example_region example_listing_rules one,
      THEN conjunct1, THEN mp, OF bare]
  have a: "Read exampleUnmarshal
      (exampleDataSource Null (map Inr [bareRule]) (serviceUrlMap [svc1]))
     exampleRequest emptyResponse =
     ([GlobalForwardingRules_List ''my-gcp-project''], Inl (IndexOutOfRange (- 1) 1))"
    by (simp add: example_global_calls)
  from target_without_separator [OF example_checks [of Null _ "serviceUrlMap [svc1]"]
      example_data example_project example_region example_listing_rules
      example_one [of "''fr-1''"], THEN conjunct2, THEN mp, OF slash]
  have b: "snd (Read exampleUnmarshal
          (exampleDataSource Null (map Inr [gatewayRule ''fr-1'']) (serviceUrlMap [svc1]))
          exampleRequest emptyResponse) \<noteq> Inl (IndexOutOfRange (- 1) 1)"
    by simp
  from one bare a slash b show ?thesis by simp
qed

text \<open>
  C10. If neither the provider nor the data source sets a project, \<open>Read\<close> returns
  with the error diagnostic \<open>Missing project\<close> and makes no client call. Otherwise, on
  a call that passes the checks, the first client call lists the forwarding rules of the
  project of the data source if it is set and of the provider's project if not, in the
  region of the data source if it is set and in the provider's region if not (globally,
  if that is null).
\<close>

theorem effective_project_and_region:
  assumes noError: "\<not> HasError (Diagnostics (appendConfigDiagnostics req resp0))"
    and pd: "providerData d = Some pd"
    and data: "data = ConfigGet_data req"
    and proj: "proj = (if Project data = Null then ValueString (project pd)
                       else ValueString (Project data))"
    and reg: "reg = (if Region data = Null then region pd else Region data)"
  shows "(project pd = Null \<and> Project data = Null \<longrightarrow>
            Read unmarshal d req resp0 =
              ([], Inr (withError (appendConfigDiagnostics req resp0) ''Missing project''
                     ''The project field must be set on either the provider or data source.''))) \<and>
         (passesChecks d req resp0 pd \<longrightarrow>
            fst (Read unmarshal d req resp0) \<noteq> [] \<and>
            hd (fst (Read unmarshal d req resp0)) =
              (if reg = Null then GlobalForwardingRules_List proj
               else ForwardingRules_List proj (ValueString reg)))"
proof (intro conjI impI)
  assume "project pd = Null \<and> Project data = Null"
  then show "Read unmarshal d req resp0 =
              ([], Inr (withError (appendConfigDiagnostics req resp0) ''Missing project''
                     ''The project field must be set on either the provider or data source.''))"
    using noError pd data
    by (simp add: Read_def Let_def returns_def addError_withError)
next
  assume checks: "passesChecks d req resp0 pd"
  have p: "effectiveProject pd data = proj"
    unfolding proj effectiveProject_def by (cases "Project data") simp_all
  have r: "effectiveRegion pd data = reg"
    unfolding reg effectiveRegion_def by (cases "Region data") simp_all
  have n: "IsNull reg \<longleftrightarrow> reg = Null"
    by (cases reg) simp_all
  have run: "Read unmarshal d req resp0 =
          Read_forwardingRules unmarshal pd proj reg data (appendConfigDiagnostics req resp0)"
    using checks by (simp add: Read_passesChecks data [symmetric] p r)
  show "fst (Read unmarshal d req resp0) \<noteq> []"
    unfolding run by (simp add: Read_forwardingRules_def invoke_def)
  show "hd (fst (Read unmarshal d req resp0)) =
              (if reg = Null then GlobalForwardingRules_List proj
               else ForwardingRules_List proj (ValueString reg))"
    unfolding run by (simp add: Read_forwardingRules_def invoke_def listForwardingRules_def n)
qed

text \<open>
  A run with no project at all, and runs where the data source or the provider gives the
  project and the region.
\<close>

theorem effective_project_and_region_witness:
  "Read exampleUnmarshal (exampleDataSource Null [] (serviceUrlMap [svc1]))
     (requestFor Null Null) emptyResponse =
     ([], Inr \<lparr>Diagnostics = [ErrorDiagnostic ''Missing project''
            ''The project field must be set on either the provider or data source.''],
          State = None\<rparr>) \<and>
   hd (fst (Read exampleUnmarshal
        (exampleDataSource (Known ''us-central1'') [] (serviceUrlMap [svc1]))
        (requestFor (Known ''my-gcp-project'') Null) emptyResponse)) =
     ForwardingRules_List ''my-gcp-project'' ''us-central1'' \<and>
   hd (fst (Read exampleUnmarshal
        \<lparr>providerData = Some ((exampleProviderData (Known ''us-central1'') [] (serviceUrlMap [svc1]))
           \<lparr>project := Known ''provider-project''\<rparr>)\<rparr>
        (requestFor Null (Known ''europe-west1'')) emptyResponse)) =
     ForwardingRules_List ''provider-project'' ''europe-west1'' \<and>
   hd (fst (Read exampleUnmarshal
        \<lparr>providerData = Some ((exampleProviderData Null [] (serviceUrlMap [svc1]))
           \<lparr>project := Known ''provider-project''\<rparr>)\<rparr>
        (requestFor (Known ''my-gcp-project'') Null) emptyResponse)) =
     GlobalForwardingRules_List ''my-gcp-project''"
proof -
  have noError: "\<not> HasError (Diagnostics (appendConfigDiagnostics (requestFor proj reg) emptyResponse))"
    for proj reg
    by (simp add: appendConfigDiagnostics_def Append_def requestFor_def emptyResponse_def
          HasError_def)
  have append: "appendConfigDiagnostics (requestFor proj reg) emptyResponse = emptyResponse"
    for proj reg
    by (simp add: appendConfigDiagnostics_def Append_def requestFor_def emptyResponse_def)
  have pd: "providerData (exampleDataSource reg rules urlMap) =
              Some (exampleProviderData reg rules urlMap)" for reg rules urlMap
    by (simp add: exampleDataSource_def)
  have pd': "providerData \<lparr>providerData = Some x\<rparr> = Some x" for x
    by simp
  have missing: "project (exampleProviderData Null [] (serviceUrlMap [svc1])) = Null \<and>
                 Project (ConfigGet_data (requestFor Null Null)) = Null"
    by (simp add: exampleProviderData_def requestFor_def)
  from effective_project_and_region [OF noError pd refl refl refl, THEN conjunct1, THEN mp,
      OF missing, of exampleUnmarshal]
  have a: "Read exampleUnmarshal (exampleDataSource Null [] (serviceUrlMap [svc1]))
     (requestFor Null Null) emptyResponse =
     ([], Inr \<lparr>Diagnostics = [ErrorDiagnostic ''Missing project''
            ''The project field must be set on either the provider or data source.''],
          State = None\<rparr>)"
    by (simp add: append) (simp add: withError_def emptyResponse_def)
  have checksB: "passesChecks (exampleDataSource (Known ''us-central1'') [] (serviceUrlMap [svc1]))
      (requestFor (Known ''my-gcp-project'') Null) emptyResponse
      (exampleProviderData (Known ''us-central1'') [] (serviceUrlMap [svc1]))"
    by (simp add: passesChecks_def noError pd) (simp add: requestFor_def)
  from effective_project_and_region [OF noError pd refl refl refl, THEN conjunct2, THEN mp,
      OF checksB, THEN conjunct2, of exampleUnmarshal]
  have b: "hd (fst (Read exampleUnmarshal
        (exampleDataSource (Known ''us-central1'') [] (serviceUrlMap [svc1]))
        (requestFor (Known ''my-gcp-project'') Null) emptyResponse)) =
     ForwardingRules_List ''my-gcp-project'' ''us-central1''"
    by (simp add: requestFor_def exampleProviderData_def)
  have checksC: "passesChecks
      \<lparr>providerData = Some ((exampleProviderData (Known ''us-central1'') [] (serviceUrlMap [svc1]))
           \<lparr>project := Known ''provider-project''\<rparr>)\<rparr>
      (requestFor Null (Known ''europe-west1'')) emptyResponse
      ((exampleProviderData (Known ''us-central1'') [] (serviceUrlMap [svc1]))
           \<lparr>project := Known ''provider-project''\<rparr>)"
    by (simp add: passesChecks_def noError) (simp add: requestFor_def)
  from effective_project_and_region [OF noError pd' refl refl refl, THEN conjunct2, THEN mp,
      OF checksC, THEN conjunct2, of exampleUnmarshal]
  have c: "hd (fst (Read exampleUnmarshal
        \<lparr>providerData = Some ((exampleProviderData (Known ''us-central1'') [] (serviceUrlMap [svc1]))
           \<lparr>project := Known ''provider-project''\<rparr>)\<rparr>
        (requestFor Null (Known ''europe-west1'')) emptyResponse)) =
     ForwardingRules_List ''provider-project'' ''europe-west1''"
    by (simp add: requestFor_def exampleProviderData_def)
  have checksD: "passesChecks
      \<lparr>providerData = Some ((exampleProviderData Null [] (serviceUrlMap [svc1]))
           \<lparr>project := Known ''provider-project''\<rparr>)\<rparr>
      (requestFor (Known ''my-gcp-project'') Null) emptyResponse
      ((exampleProviderData Null [] (serviceUrlMap [svc1]))
           \<lparr>project := Known ''provider-project''\<rparr>)"
    by (simp add: passesChecks_def noError) (simp add: requestFor_def)
  from effective_project_and_region [OF noError pd' refl refl refl, THEN conjunct2, THEN mp,
      OF checksD, THEN conjunct2, of exampleUnmarshal]
  have d: "hd (fst (Read exampleUnmarshal
        \<lparr>providerData = Some ((exampleProviderData Null [] (serviceUrlMap [svc1]))
           \<lparr>project := Known ''provider-project''\<rparr>)\<rparr>
        (requestFor (Known ''my-gcp-project'') Null) emptyResponse)) =
     GlobalForwardingRules_List ''my-gcp-project''"
    by (simp add: requestFor_def exampleProviderData_def)
  from a b c d show ?thesis by simp
qed

end
